theory Spec2Isabelle
  imports Main "HOL-Library.Sublist"
begin

section \<open>Python strings\<close>

text \<open>
  A Python \<open>str\<close> is modelled by \<^typ>\<open>string\<close>: a list of code points, here the code
  points below 256. The character classes below are Python's own tables on that range:
  \<open>str.isspace\<close> (which is also the class \<open>\s\<close> of \<open>re\<close> on a \<open>str\<close> pattern),
  the decimal digits (the class \<open>\d\<close>), and \<open>str.isalnum\<close>.
\<close>

definition isspace :: "char \<Rightarrow> bool" where
  "isspace c = (of_char c \<in> set [9, 10, 11, 12, 13, 28, 29, 30, 31, 32, 133, 160 :: nat])"

definition isdecimal :: "char \<Rightarrow> bool" where
  "isdecimal c = (48 \<le> (of_char c :: nat) \<and> (of_char c :: nat) \<le> 57)"

definition isalnum :: "char \<Rightarrow> bool" where
  "isalnum c = (let n = of_char c :: nat in
     (48 \<le> n \<and> n \<le> 57) \<or> (65 \<le> n \<and> n \<le> 90) \<or> (97 \<le> n \<and> n \<le> 122) \<or>
     n \<in> set [170, 178, 179, 181, 185, 186] \<or> (188 \<le> n \<and> n \<le> 190) \<or>
     (192 \<le> n \<and> n \<le> 214) \<or> (216 \<le> n \<and> n \<le> 246) \<or> (248 \<le> n \<and> n \<le> 255))"

text \<open>\<open>s.rstrip()\<close>: the trailing whitespace characters are removed.\<close>

definition rstrip :: "string \<Rightarrow> string" where
  "rstrip s = rev (dropWhile isspace (rev s))"

text \<open>\<open>s.replace(a, b)\<close> for one-character strings \<open>a\<close> and \<open>b\<close>.\<close>

definition replace_char :: "char \<Rightarrow> char \<Rightarrow> string \<Rightarrow> string" where
  "replace_char a b s = map (\<lambda>c. if c = a then b else c) s"

text \<open>
  \<open>s.upper()\<close> on the letters \<open>a\<close> to \<open>z\<close>; every other character is left as it is.
  The orchestrator applies it to section titles only, which the section pattern
  restricts to ASCII letters, one space and decimal digits (lemma \<open>findall_titles\<close>),
  where this is all that Python's \<open>upper\<close> does.
\<close>

definition upper_char :: "char \<Rightarrow> char" where
  "upper_char c = (if 97 \<le> (of_char c :: nat) \<and> (of_char c :: nat) \<le> 122
                   then char_of ((of_char c :: nat) - 32) else c)"

definition upper :: "string \<Rightarrow> string" where
  "upper s = map upper_char s"

text \<open>\<open>str(n)\<close> for a non-negative integer: its decimal digits.\<close>

fun str_nat :: "nat \<Rightarrow> string" where
  "str_nat n = (if n < 10 then [char_of (48 + n)]
                else str_nat (n div 10) @ [char_of (48 + n mod 10)])"

definition nl :: string where
  "nl = [CHR 0x0A]"

definition quote :: string where
  "quote = [CHR 0x27]"

text \<open>\<open>repr\<close> of a list of strings that hold no quote, backslash or unprintable character.\<close>

fun join_strs :: "string \<Rightarrow> string list \<Rightarrow> string" where
  "join_strs d [] = []"
| "join_strs d [x] = x"
| "join_strs d (x # y # ys) = x @ d @ join_strs d (y # ys)"

definition repr_list :: "string list \<Rightarrow> string" where
  "repr_list xs = ''['' @ join_strs '', '' (map (\<lambda>x. quote @ x @ quote) xs) @ '']''"

section \<open>The section pattern\<close>

text \<open>
  \<^verbatim>\<open>re.findall(r"(##\s(Introduction|Step \d+|Conclusion):.*?)(?=---)", content_outline, re.DOTALL)\<close>

  The pattern is matched the way the backtracking engine does it: at a start position,
  \<open>##\<close>, one whitespace character, then the alternatives of group 2 in their order
  (the greedy \<open>\d+\<close> giving its longest digit run first), a colon, and the lazy
  \<open>.*?\<close>, which under \<open>DOTALL\<close> takes any characters and stops at the first position
  followed by \<open>---\<close>. The look-ahead consumes nothing.
\<close>

fun strip_prefix :: "string \<Rightarrow> string \<Rightarrow> string option" where
  "strip_prefix [] s = Some s"
| "strip_prefix (p # ps) [] = None"
| "strip_prefix (p # ps) (c # cs) = (if p = c then strip_prefix ps cs else None)"

text \<open>\<open>.*?(?=---)\<close>: the shortest run of characters after which \<open>---\<close> follows.\<close>

fun lazy_until_sep :: "string \<Rightarrow> string option" where
  "lazy_until_sep [] = None"
| "lazy_until_sep (c # cs) =
     (if strip_prefix ''---'' (c # cs) \<noteq> None then Some []
      else map_option ((#) c) (lazy_until_sep cs))"

text \<open>\<open>\d+\<close>: the non-empty runs of leading digits, longest first, each with what follows it.\<close>

definition digit_runs :: "string \<Rightarrow> (string \<times> string) list" where
  "digit_runs s = map (\<lambda>n. (take n s, drop n s)) (rev [1 ..< Suc (length (takeWhile isdecimal s))])"

text \<open>Group 2: the candidate labels at the start of \<open>s\<close>, in the order the engine tries them.\<close>

definition labels :: "string \<Rightarrow> (string \<times> string) list" where
  "labels s =
     (case strip_prefix ''Introduction'' s of Some r \<Rightarrow> [(''Introduction'', r)] | None \<Rightarrow> []) @
     (case strip_prefix ''Step '' s of
        Some r \<Rightarrow> map (\<lambda>(ds, r'). (''Step '' @ ds, r')) (digit_runs r) | None \<Rightarrow> []) @
     (case strip_prefix ''Conclusion'' s of Some r \<Rightarrow> [(''Conclusion'', r)] | None \<Rightarrow> [])"

text \<open>What follows a label: the colon and the lazy content; the result is the text of both.\<close>

definition after_label :: "string \<Rightarrow> string option" where
  "after_label r = (case strip_prefix '':'' r of None \<Rightarrow> None
                    | Some r' \<Rightarrow> map_option ((@) '':'') (lazy_until_sep r'))"

text \<open>The first candidate label (in the engine's order) that the rest of the pattern accepts.\<close>

fun first_label :: "(string \<times> string) list \<Rightarrow> (string \<times> string) option" where
  "first_label [] = None"
| "first_label ((t, r) # cs) =
     (case after_label r of Some body \<Rightarrow> Some (t, body) | None \<Rightarrow> first_label cs)"

text \<open>A match starting at the first character of \<open>s\<close>: (group 1, group 2).\<close>

definition match_at :: "string \<Rightarrow> (string \<times> string) option" where
  "match_at s =
     (case strip_prefix ''##'' s of
        None \<Rightarrow> None
      | Some [] \<Rightarrow> None
      | Some (w # r) \<Rightarrow>
          if isspace w
          then map_option (\<lambda>(t, body). (''##'' @ [w] @ t @ body, t)) (first_label (labels r))
          else None)"

text \<open>
  \<open>findall\<close> scans from left to right and resumes where the previous match ended;
  \<open>k\<close> counts the characters of the previous match still to pass. A match of this
  pattern is never empty, so the scan passes it as a whole.
\<close>

fun findall_from :: "nat \<Rightarrow> string \<Rightarrow> (string \<times> string) list" where
  "findall_from k [] = []"
| "findall_from k (c # cs) =
     (if 0 < k then findall_from (k - 1) cs
      else case match_at (c # cs) of
             None \<Rightarrow> findall_from 0 cs
           | Some (g1, g2) \<Rightarrow> (g1, g2) # findall_from (length g1 - 1) cs)"

definition findall :: "string \<Rightarrow> (string \<times> string) list" where
  "findall content_outline = findall_from 0 content_outline"

section \<open>The output file name\<close>

text \<open>
  \<^verbatim>\<open>safe_topic = "".join(c for c in main_topic if c.isalnum() or c in (' ', '_')).rstrip().replace(' ', '_')\<close>
\<close>

definition RESEARCH_DIR :: string where
  "RESEARCH_DIR = ''article_research''"

text \<open>The joined generator expression: the characters of the topic that are kept.\<close>

definition kept :: "string \<Rightarrow> string" where
  "kept main_topic = filter (\<lambda>c. isalnum c \<or> c \<in> set [CHR '' '', CHR ''_'']) main_topic"

definition safe_topic :: "string \<Rightarrow> string" where
  "safe_topic main_topic = replace_char (CHR '' '') (CHR ''_'') (rstrip (kept main_topic))"

definition output_filename :: "string \<Rightarrow> string \<Rightarrow> string" where
  "output_filename main_topic timestamp =
     ''article_research_'' @ safe_topic main_topic @ ''_'' @ timestamp @ ''.txt''"

text \<open>
  \<open>os.path.join(RESEARCH_DIR, output_filename)\<close>: the file name starts with a letter and is
  no absolute path, so the two are joined by the platform's separator \<open>sep\<close>.
\<close>

definition path_join :: "string \<Rightarrow> string \<Rightarrow> string \<Rightarrow> string" where
  "path_join sep a b = a @ sep @ b"

section \<open>Effects: exceptions, the console, the browser, the file system\<close>

text \<open>
  An exception is a value. \<open>TimeoutError\<close> is Playwright's; \<open>Error\<close> stands for every
  other subclass of \<open>Exception\<close>. Both carry the text that \<open>str(e)\<close> yields.
\<close>

datatype exn = TimeoutError string | Error string

fun str_exn :: "exn \<Rightarrow> string" where
  "str_exn (TimeoutError m) = m"
| "str_exn (Error m) = m"

text \<open>
  Every call that leaves the program is recorded, in order, in a trace. \<open>sleep\<close> only
  waits and is not recorded.
\<close>

datatype action =
    Print string
  | NewPage
  | Goto
  | WaitChatInput
  | ClickTools
  | WaitWebSearch
  | GetDataState
  | ClickWebSearch
  | ClickBody
  | Fill string
  | PressEnter
  | WaitCopyButton
  | WaitAttached
  | ClickCopy
  | DispatchClick
  | Paste
  | ClosePage
  | OpenAppend string
  | MakeDirs
  | Write string string

text \<open>
  The state: the trace, the files by path, and the local variable \<open>page\<close> of the loop
  in \<open>research_each_step\<close> (whether it holds a page or \<open>None\<close>).
\<close>

record world =
  trace :: "action list"
  files :: "string \<rightharpoonup> string"
  page :: bool

text \<open>
  What the outside answers in one interaction: for each call site, the exception it
  raises (if any) or the value it returns. \<open>open_r\<close> answers the \<open>open\<close> of line 145,
  \<open>open_err_r\<close> the one of line 152.
\<close>

record page_env =
  new_page_r :: "exn option"
  goto_r :: "exn option"
  wait_chat_input_r :: "exn option"
  click_tools_r :: "exn option"
  wait_web_search_r :: "exn option"
  data_state_r :: "exn + string option"
  click_web_search_r :: "exn option"
  click_body_r :: "exn option"
  fill_r :: "exn option"
  press_r :: "exn option"
  wait_copy_button_r :: "exn option"
  wait_attached_r :: "exn option"
  click_copy_r :: "exn option"
  dispatch_r :: "exn option"
  paste_r :: "exn + string"
  close_r :: "exn option"
  open_r :: "exn option"
  open_err_r :: "exn option"

type_synonym 'a io = "world \<Rightarrow> (exn + 'a) \<times> world"

definition io_return :: "'a \<Rightarrow> 'a io" where
  "io_return x = (\<lambda>w. (Inr x, w))"

definition io_raise :: "exn \<Rightarrow> 'a io" where
  "io_raise e = (\<lambda>w. (Inl e, w))"

definition io_bind :: "'a io \<Rightarrow> ('a \<Rightarrow> 'b io) \<Rightarrow> 'b io" where
  "io_bind m f = (\<lambda>w. case m w of (Inl e, w') \<Rightarrow> (Inl e, w') | (Inr x, w') \<Rightarrow> f x w')"

definition io_then :: "'a io \<Rightarrow> 'b io \<Rightarrow> 'b io" where
  "io_then m n = io_bind m (\<lambda>_. n)"

text \<open>A block of statements, run in order up to the first that raises.\<close>

fun io_seq :: "unit io list \<Rightarrow> unit io" where
  "io_seq [] = io_return ()"
| "io_seq (m # ms) = io_then m (io_seq ms)"

text \<open>\<open>try: m  except Exception as e: h e\<close>\<close>

definition try_except :: "'a io \<Rightarrow> (exn \<Rightarrow> 'a io) \<Rightarrow> 'a io" where
  "try_except m h = (\<lambda>w. case m w of (Inl e, w') \<Rightarrow> h e w' | (Inr x, w') \<Rightarrow> (Inr x, w'))"

text \<open>\<open>try: m  except TimeoutError: h\<close>: any other exception passes through.\<close>

definition try_except_timeout :: "'a io \<Rightarrow> 'a io \<Rightarrow> 'a io" where
  "try_except_timeout m h =
     (\<lambda>w. case m w of
             (Inl (TimeoutError msg), w') \<Rightarrow> h w'
           | (Inl (Error msg), w') \<Rightarrow> (Inl (Error msg), w')
           | (Inr x, w') \<Rightarrow> (Inr x, w'))"

text \<open>
  \<open>try: m  finally: fin\<close>: \<open>fin\<close> runs on every path; an exception of \<open>fin\<close> replaces
  the outcome of \<open>m\<close>.
\<close>

definition try_finally :: "'a io \<Rightarrow> unit io \<Rightarrow> 'a io" where
  "try_finally m fin =
     (\<lambda>w. case m w of
             (r, w') \<Rightarrow> (case fin w' of (Inl e, w'') \<Rightarrow> (Inl e, w'') | (Inr u, w'') \<Rightarrow> (r, w'')))"

definition log :: "action \<Rightarrow> world \<Rightarrow> world" where
  "log a w = w\<lparr>trace := trace w @ [a]\<rparr>"

definition print :: "string \<Rightarrow> unit io" where
  "print s = (\<lambda>w. (Inr (), log (Print s) w))"

text \<open>An outside call that returns nothing: it happens, then raises or returns.\<close>

definition call :: "action \<Rightarrow> exn option \<Rightarrow> unit io" where
  "call a r = (\<lambda>w. (case r of Some e \<Rightarrow> Inl e | None \<Rightarrow> Inr (), log a w))"

text \<open>An outside call that returns a value.\<close>

definition call_val :: "action \<Rightarrow> exn + 'a \<Rightarrow> 'a io" where
  "call_val a r = (\<lambda>w. (r, log a w))"

definition set_page :: "bool \<Rightarrow> unit io" where
  "set_page b = (\<lambda>w. (Inr (), w\<lparr>page := b\<rparr>))"

text \<open>The content of the file at a path; a file that does not exist has none.\<close>

definition content :: "world \<Rightarrow> string \<Rightarrow> string" where
  "content w p = (case files w p of None \<Rightarrow> [] | Some c \<Rightarrow> c)"

text \<open>\<open>open(path, 'a', encoding='utf-8')\<close>: creates the file if it is missing.\<close>

definition open_append :: "string \<Rightarrow> exn option \<Rightarrow> unit io" where
  "open_append p r =
     (\<lambda>w. case r of
             Some e \<Rightarrow> (Inl e, log (OpenAppend p) w)
           | None \<Rightarrow> (Inr (), log (OpenAppend p) (w\<lparr>files := (files w)(p \<mapsto> content w p)\<rparr>)))"

text \<open>\<open>f.write(s)\<close> on a file opened for appending.\<close>

definition f_write :: "string \<Rightarrow> string \<Rightarrow> unit io" where
  "f_write p s = (\<lambda>w. (Inr (), log (Write p s) (w\<lparr>files := (files w)(p \<mapsto> content w p @ s)\<rparr>)))"

section \<open>The program\<close>

definition RESPONSE_TIMEOUT :: nat where
  "RESPONSE_TIMEOUT = 900000"

text \<open>\<open>int(RESPONSE_TIMEOUT / 60000)\<close>: the quotient is exact.\<close>

definition timeout_minutes :: string where
  "timeout_minutes = str_nat (RESPONSE_TIMEOUT div 60000)"

definition banner :: "char \<Rightarrow> string" where
  "banner c = nl @ replicate 50 c"

subsection \<open>\<open>generate_outline\<close>\<close>

definition instruction :: string where
  "instruction = ''Search the web for the latest and most comprehensive guides on this topic. Then, generate a detailed, step-by-step content outline with an Introduction, multiple Steps, and a Conclusion. Structure it clearly with '' @ quote @ ''---'' @ quote @ '' separators between sections.''"

definition final_prompt :: "string \<Rightarrow> string" where
  "final_prompt main_topic = ''Topic: '' @ main_topic @ nl @ nl @ ''Instruction: '' @ instruction"

text \<open>Lines 28 to 41: the Web Search tool is switched on if it reads as off.\<close>

definition enable_web_search_outline :: "page_env \<Rightarrow> unit io" where
  "enable_web_search_outline e =
     io_seq [
       print (''Enabling '' @ quote @ ''Web Search'' @ quote @ '' tool...''),
       call ClickTools (click_tools_r e),
       call WaitWebSearch (wait_web_search_r e),
       io_bind (call_val GetDataState (data_state_r e)) (\<lambda>data_state.
         if data_state = Some ''unchecked''
         then io_seq [
                call ClickWebSearch (click_web_search_r e),
                print (quote @ ''Web Search'' @ quote @ '' option has been enabled.'')]
         else print (quote @ ''Web Search'' @ quote @ '' option was already enabled.'')),
       call ClickBody (click_body_r e),
       print (quote @ ''Web Search'' @ quote @ '' tool is ready.'')]"

text \<open>Lines 58 to 63: the copy button is clicked; on a timeout its click event is dispatched.\<close>

definition click_copy_outline :: "page_env \<Rightarrow> unit io" where
  "click_copy_outline e =
     try_except_timeout
       (io_seq [
          print ''Attempting to click the copy button for the outline...'',
          call ClickCopy (click_copy_r e)])
       (io_seq [
          print ''Standard click failed. Attempting JavaScript click...'',
          call DispatchClick (dispatch_r e)])"

text \<open>Lines 23 to 65: the steps on the page up to the copy of the answer.\<close>

definition outline_session :: "page_env \<Rightarrow> string \<Rightarrow> unit io" where
  "outline_session e main_topic =
     io_seq [
       print ''Navigating to https://chat.z.ai/...'',
       call Goto (goto_r e),
       call WaitChatInput (wait_chat_input_r e),
       print ''Chat interface loaded.'',
       enable_web_search_outline e,
       print (''Sending prompt for outline: '' @ quote @ take 80 (final_prompt main_topic)
              @ ''...'' @ quote),
       call (Fill (final_prompt main_topic)) (fill_r e),
       call PressEnter (press_r e),
       print ''Prompt sent! Waiting for AI response...'',
       call WaitCopyButton (wait_copy_button_r e),
       call WaitAttached (wait_attached_r e),
       click_copy_outline e,
       print ''Outline successfully copied to clipboard.'']"

text \<open>Lines 68 to 74: the clipboard is read; an empty one gives \<open>None\<close>.\<close>

definition read_outline :: "page_env \<Rightarrow> string option io" where
  "read_outline e =
     io_bind (call_val Paste (paste_r e)) (\<lambda>copied_outline_text.
       if copied_outline_text = []
       then io_then (print ''Error: Could not copy the outline from the clipboard.'')
                    (io_return None)
       else io_then (print ''Outline generated successfully.'')
                    (io_return (Some copied_outline_text)))"

text \<open>Lines 76 to 78: the handler of every exception of the body.\<close>

definition outline_failed :: "exn \<Rightarrow> string option io" where
  "outline_failed ex =
     io_then (print (''An error occurred while generating the outline: '' @ str_exn ex))
             (io_return None)"

definition generate_outline :: "page_env \<Rightarrow> string \<Rightarrow> string option io" where
  "generate_outline e main_topic =
     io_then (print (banner (CHR ''='')))
    (io_then (print ''Step 1: Generating the content outline...'')
    (try_except
       (io_then (outline_session e main_topic) (read_outline e))
       outline_failed))"

subsection \<open>\<open>research_each_step\<close>\<close>

definition research_prompt :: "string \<Rightarrow> string \<Rightarrow> string" where
  "research_prompt section_title content_outline =
     ''Do research on the following topic: '' @ quote @ section_title @ quote
     @ ''. The full context of the article outline is as follows:'' @ nl @ nl @ ''---'' @ nl
     @ content_outline @ nl @ ''---''"

text \<open>Lines 107 to 112.\<close>

definition enable_web_search :: "page_env \<Rightarrow> unit io" where
  "enable_web_search e =
     io_seq [
       call ClickTools (click_tools_r e),
       call WaitWebSearch (wait_web_search_r e),
       io_bind (call_val GetDataState (data_state_r e)) (\<lambda>data_state.
         if data_state = Some ''unchecked''
         then call ClickWebSearch (click_web_search_r e)
         else io_return ()),
       call ClickBody (click_body_r e)]"

text \<open>Lines 120 to 125: a timeout of the wait is raised again with a message of its own.\<close>

definition await_response :: "page_env \<Rightarrow> string \<Rightarrow> unit io" where
  "await_response e section_title =
     try_except_timeout
       (call WaitCopyButton (wait_copy_button_r e))
       (io_raise (TimeoutError (''z.ai did not generate a response for '' @ quote @ section_title
                                @ quote @ '' within '' @ timeout_minutes @ '' minutes.'')))"

text \<open>Lines 131 to 136.\<close>

definition click_copy :: "page_env \<Rightarrow> unit io" where
  "click_copy e =
     try_except_timeout
       (io_seq [
          print ''Attempting to click the copy button for the research...'',
          call ClickCopy (click_copy_r e)])
       (io_seq [
          print ''Standard click failed. Attempting JavaScript click...'',
          call DispatchClick (dispatch_r e)])"

definition section_header :: "string \<Rightarrow> string" where
  "section_header section_title =
     nl @ nl @ replicate 20 (CHR ''='') @ '' '' @ upper section_title @ '' ''
     @ replicate 20 (CHR ''='') @ nl @ nl"

definition copy_error_text :: "string \<Rightarrow> string" where
  "copy_error_text section_title =
     ''--- ERROR: FAILED TO COPY CONTENT FOR '' @ section_title @ '' ---'' @ nl"

definition error_block :: "string \<Rightarrow> exn \<Rightarrow> string" where
  "error_block section_title ex =
     nl @ nl @ ''--- ERROR DURING RESEARCH FOR: '' @ section_title @ '' ---'' @ nl
     @ ''Details: '' @ str_exn ex @ nl @ nl"

text \<open>Lines 104 to 138: the steps on the page of a section once it is open.\<close>

definition page_session :: "page_env \<Rightarrow> string \<Rightarrow> string \<Rightarrow> unit io" where
  "page_session e content_outline section_title =
     io_seq [
       call Goto (goto_r e),
       call WaitChatInput (wait_chat_input_r e),
       enable_web_search e,
       call (Fill (research_prompt section_title content_outline)) (fill_r e),
       call PressEnter (press_r e),
       print (''Prompt sent! Waiting for AI response (max '' @ timeout_minutes
              @ '' minutes)...''),
       await_response e section_title,
       call WaitAttached (wait_attached_r e),
       click_copy e,
       print ''Research result copied to clipboard.'']"

text \<open>Lines 100 to 103, for the section of index \<open>i\<close> out of \<open>n\<close>: a new page is opened.\<close>

definition open_page :: "page_env \<Rightarrow> nat \<Rightarrow> nat \<Rightarrow> string \<Rightarrow> unit io" where
  "open_page e n i section_title =
     io_seq [
       print (banner (CHR ''-'')),
       print (''Researching: '' @ quote @ section_title @ quote @ '' ('' @ str_nat (i + 1)
              @ ''/'' @ str_nat n @ '')''),
       call NewPage (new_page_r e),
       set_page True]"

text \<open>
  Lines 141 to 148: the clipboard is read and the record is appended; \<open>basename\<close> is
  \<open>os.path.basename\<close>.
\<close>

definition save_research :: "page_env \<Rightarrow> (string \<Rightarrow> string) \<Rightarrow> string \<Rightarrow> string \<Rightarrow> unit io" where
  "save_research e basename output_filepath section_title =
     io_bind (call_val Paste (paste_r e)) (\<lambda>pasted.
       let researched_text = (if pasted = [] then copy_error_text section_title else pasted)
       in io_seq [
            open_append output_filepath (open_r e),
            f_write output_filepath (section_header section_title),
            f_write output_filepath researched_text,
            print (''Research for '' @ quote @ section_title @ quote
                   @ '' has been appended to '' @ quote @ basename output_filepath
                   @ quote @ ''.'')])"

text \<open>Lines 150 to 153: the handler of every exception of the body.\<close>

definition research_failed :: "page_env \<Rightarrow> string \<Rightarrow> string \<Rightarrow> exn \<Rightarrow> unit io" where
  "research_failed e output_filepath section_title ex =
     io_seq [
       print (''An error occurred during research for '' @ quote @ section_title
              @ quote @ '': '' @ str_exn ex),
       open_append output_filepath (open_err_r e),
       f_write output_filepath (error_block section_title ex)]"

text \<open>Lines 154 to 157: the page, if there is one, is closed.\<close>

definition close_page :: "page_env \<Rightarrow> string \<Rightarrow> unit io" where
  "close_page e section_title =
     (\<lambda>w. if page w
           then io_seq [
                  call ClosePage (close_r e),
                  print (''Page used for '' @ quote @ section_title @ quote
                         @ '' has been closed.'')] w
           else io_return () w)"

text \<open>Lines 99 to 148: the statements under \<open>try\<close>.\<close>

definition try_body ::
  "page_env \<Rightarrow> (string \<Rightarrow> string) \<Rightarrow> string \<Rightarrow> string \<Rightarrow> nat \<Rightarrow> nat \<Rightarrow> string \<Rightarrow> unit io" where
  "try_body e basename content_outline output_filepath n i section_title =
     io_seq [
       open_page e n i section_title,
       page_session e content_outline section_title,
       save_research e basename output_filepath section_title]"

text \<open>The body of the loop (lines 98 to 157).\<close>

definition research_section ::
  "page_env \<Rightarrow> (string \<Rightarrow> string) \<Rightarrow> string \<Rightarrow> string \<Rightarrow> nat \<Rightarrow> nat \<Rightarrow> string \<Rightarrow> unit io" where
  "research_section e basename content_outline output_filepath n i section_title =
     io_then (set_page False)
    (try_finally
       (try_except
          (try_body e basename content_outline output_filepath n i section_title)
          (research_failed e output_filepath section_title))
       (close_page e section_title))"

text \<open>The loop of line 97 over \<open>enumerate(section_titles)\<close>; \<open>env i\<close> answers the calls of section \<open>i\<close>.\<close>

fun research_loop ::
  "(nat \<Rightarrow> page_env) \<Rightarrow> (string \<Rightarrow> string) \<Rightarrow> string \<Rightarrow> string \<Rightarrow> nat \<Rightarrow> (nat \<times> string) list
   \<Rightarrow> unit io" where
  "research_loop env basename content_outline output_filepath n [] = io_return ()"
| "research_loop env basename content_outline output_filepath n ((i, section_title) # rest) =
     io_then (research_section (env i) basename content_outline output_filepath n i section_title)
             (research_loop env basename content_outline output_filepath n rest)"

definition research_each_step ::
  "(nat \<Rightarrow> page_env) \<Rightarrow> (string \<Rightarrow> string) \<Rightarrow> string \<Rightarrow> string \<Rightarrow> unit io" where
  "research_each_step env basename content_outline output_filepath =
     io_then (print (banner (CHR ''='')))
    (io_then (print ''Step 2: Starting research for each section...'')
    (let sections = findall content_outline in
     if sections = []
     then print ''No sections found. Please check the outline format.''
     else let section_titles = map snd sections in
       io_then (print (''Found a total of '' @ str_nat (length section_titles) @ '' sections: ''
                       @ repr_list section_titles))
               (research_loop env basename content_outline output_filepath
                  (length section_titles) (enumerate 0 section_titles))))"

subsection \<open>The start of the main block (lines 162 to 174)\<close>

text \<open>
  \<open>exit()\<close> ends the program; \<open>os.makedirs\<close> may raise, and nothing catches it there.
  \<open>dir_exists\<close> is \<open>os.path.exists(RESEARCH_DIR)\<close>, \<open>timestamp\<close> the formatted time.
\<close>

datatype startup = Exit | Crashed exn | Ready string

definition main_start ::
  "string \<Rightarrow> bool \<Rightarrow> exn option \<Rightarrow> string \<Rightarrow> string \<Rightarrow> world \<Rightarrow> startup \<times> world" where
  "main_start sep dir_exists makedirs_r timestamp main_topic w =
     (if main_topic = [] then (Exit, log (Print ''No topic provided. Exiting.'') w)
      else
        let output_filepath = path_join sep RESEARCH_DIR (output_filename main_topic timestamp)
        in if \<not> dir_exists
           then (case makedirs_r of
                   Some ex \<Rightarrow> (Crashed ex, log MakeDirs w)
                 | None \<Rightarrow> (Ready output_filepath,
                            log (Print (''Folder '' @ quote @ RESEARCH_DIR @ quote @ '' created.''))
                              (log MakeDirs w)))
           else (Ready output_filepath, w))"

section \<open>What an interaction amounts to\<close>

text \<open>
  The outcome of a block of steps, read off the answers of the outside alone: the
  exception that leaves the block, if any. \<open>first_failure\<close> is the first exception of a
  list of such outcomes, in the order of the steps.
\<close>

fun first_failure :: "exn option list \<Rightarrow> exn option" where
  "first_failure [] = None"
| "first_failure (None # rs) = first_failure rs"
| "first_failure (Some ex # rs) = Some ex"

definition outcome :: "exn option \<Rightarrow> exn + unit" where
  "outcome r = (case r of Some ex \<Rightarrow> Inl ex | None \<Rightarrow> Inr ())"

text \<open>Lines 31 to 39 and 107 to 112.\<close>

definition web_search_failure :: "page_env \<Rightarrow> exn option" where
  "web_search_failure e = first_failure [
     click_tools_r e, wait_web_search_r e,
     (case data_state_r e of
        Inl ex \<Rightarrow> Some ex
      | Inr v \<Rightarrow> if v = Some ''unchecked'' then click_web_search_r e else None),
     click_body_r e]"

text \<open>Lines 58 to 63 and 131 to 136: after a timeout of the click, the dispatch decides.\<close>

definition copy_failure :: "page_env \<Rightarrow> exn option" where
  "copy_failure e = (case click_copy_r e of Some (TimeoutError m) \<Rightarrow> dispatch_r e | r \<Rightarrow> r)"

text \<open>Lines 120 to 125.\<close>

definition response_failure :: "page_env \<Rightarrow> string \<Rightarrow> exn option" where
  "response_failure e section_title =
     (case wait_copy_button_r e of
        Some (TimeoutError m) \<Rightarrow>
          Some (TimeoutError (''z.ai did not generate a response for '' @ quote @ section_title
                              @ quote @ '' within '' @ timeout_minutes @ '' minutes.''))
      | r \<Rightarrow> r)"

definition page_failure :: "page_env \<Rightarrow> string \<Rightarrow> exn option" where
  "page_failure e section_title = first_failure [
     goto_r e, wait_chat_input_r e, web_search_failure e, fill_r e, press_r e,
     response_failure e section_title, wait_attached_r e, copy_failure e]"

definition outline_failure :: "page_env \<Rightarrow> exn option" where
  "outline_failure e = first_failure [
     goto_r e, wait_chat_input_r e, web_search_failure e, fill_r e, press_r e,
     wait_copy_button_r e, wait_attached_r e, copy_failure e]"

definition paste_failure :: "page_env \<Rightarrow> exn option" where
  "paste_failure e = (case paste_r e of Inl ex \<Rightarrow> Some ex | Inr text \<Rightarrow> None)"

text \<open>The exception that reaches the handler of line 150, if any.\<close>

definition section_failure :: "page_env \<Rightarrow> string \<Rightarrow> exn option" where
  "section_failure e section_title = first_failure [
     new_page_r e, page_failure e section_title, paste_failure e, open_r e]"

text \<open>
  The result of the interaction of one section: the text that was pasted, an empty
  paste, or a failure with its exception.
\<close>

datatype research_result = Ok string | EmptyExtraction | Failed exn

definition section_outcome :: "page_env \<Rightarrow> string \<Rightarrow> research_result" where
  "section_outcome e section_title =
     (case section_failure e section_title of
        Some ex \<Rightarrow> Failed ex
      | None \<Rightarrow> (case paste_r e of
                   Inr text \<Rightarrow> if text = [] then EmptyExtraction else Ok text
                 | Inl ex \<Rightarrow> Failed ex))"

text \<open>The record of a section in the output file.\<close>

fun record_of :: "string \<Rightarrow> research_result \<Rightarrow> string" where
  "record_of section_title (Ok text) = section_header section_title @ text"
| "record_of section_title EmptyExtraction =
     section_header section_title @ copy_error_text section_title"
| "record_of section_title (Failed ex) = error_block section_title ex"

text \<open>
  What the body of the loop appends for a section: its record, or nothing when the
  handler itself cannot open the file.
\<close>

definition appended :: "page_env \<Rightarrow> string \<Rightarrow> string" where
  "appended e section_title =
     (case section_failure e section_title of
        Some ex \<Rightarrow> if open_err_r e = None then error_block section_title ex else []
      | None \<Rightarrow> record_of section_title (section_outcome e section_title))"

text \<open>
  The exception that leaves the body of the loop, if any: that of \<open>page.close()\<close> where
  a page was opened, else that of the \<open>open\<close> of the handler where the handler ran.
\<close>

definition section_raises :: "page_env \<Rightarrow> string \<Rightarrow> exn option" where
  "section_raises e section_title =
     (case (if new_page_r e = None then close_r e else None) of
        Some ex \<Rightarrow> Some ex
      | None \<Rightarrow> (case section_failure e section_title of
                   Some ex \<Rightarrow> open_err_r e
                 | None \<Rightarrow> None))"

text \<open>
  A block that raises what \<open>r\<close> says, whatever the state, and leaves the files and the
  variable \<open>page\<close> as they are.
\<close>

definition quiet :: "unit io \<Rightarrow> exn option \<Rightarrow> bool" where
  "quiet m r =
     (\<forall>w. fst (m w) = outcome r \<and> files (snd (m w)) = files w \<and> page (snd (m w)) = page w)"

text \<open>The steps of an interaction up to the click on the copy button all succeed.\<close>

definition reaches_copy :: "page_env \<Rightarrow> bool" where
  "reaches_copy e =
     (goto_r e = None \<and> wait_chat_input_r e = None \<and> click_tools_r e = None \<and>
      wait_web_search_r e = None \<and>
      (case data_state_r e of
         Inl ex \<Rightarrow> False
       | Inr v \<Rightarrow> v = Some ''unchecked'' \<longrightarrow> click_web_search_r e = None) \<and>
      click_body_r e = None \<and> fill_r e = None \<and> press_r e = None \<and>
      wait_copy_button_r e = None \<and> wait_attached_r e = None)"

text \<open>Sample data: an interaction in which every step succeeds, and an empty start.\<close>

definition env_ok :: page_env where
  "env_ok = \<lparr> new_page_r = None, goto_r = None, wait_chat_input_r = None, click_tools_r = None,
     wait_web_search_r = None, data_state_r = Inr (Some ''checked''), click_web_search_r = None,
     click_body_r = None, fill_r = None, press_r = None, wait_copy_button_r = None,
     wait_attached_r = None, click_copy_r = None, dispatch_r = None,
     paste_r = Inr ''text'', close_r = None, open_r = None, open_err_r = None \<rparr>"

definition w0 :: world where
  "w0 = \<lparr> trace = [], files = Map.empty, page = False \<rparr>"

definition count_action :: "action \<Rightarrow> world \<Rightarrow> nat" where
  "count_action a w = count_list (trace w) a"

text \<open>
  The sections whose body is run by the loop: those up to the first whose body raises,
  that one included.
\<close>

fun ran :: "(nat \<Rightarrow> page_env) \<Rightarrow> (nat \<times> string) list \<Rightarrow> (nat \<times> string) list" where
  "ran env [] = []"
| "ran env ((i, t) # rest) =
     (i, t) # (if section_raises (env i) t = None then ran env rest else [])"

text \<open>Sample data: an outline of two sections, and answers in which the second times out.\<close>

definition sample_outline :: string where
  "sample_outline = ''## Introduction: a'' @ nl @ ''---'' @ nl @ ''## Step 1: b'' @ nl @ ''---''"

definition sample_env :: "nat \<Rightarrow> page_env" where
  "sample_env i = (if i = 1 then env_ok\<lparr>wait_copy_button_r := Some (TimeoutError ''slow'')\<rparr> else env_ok)"

text \<open>More sample answers: the switch reads as off; its attribute is absent.\<close>

definition env_off :: page_env where
  "env_off = env_ok\<lparr>data_state_r := Inr (Some ''unchecked'')\<rparr>"

definition env_absent :: page_env where
  "env_absent = env_ok\<lparr>data_state_r := Inr None\<rparr>"

text \<open>What \<open>generate_outline\<close> returns, read off the answers of the outside alone.\<close>

definition outline_result :: "page_env \<Rightarrow> string option" where
  "outline_result e =
     (case outline_failure e of
        Some ex \<Rightarrow> None
      | None \<Rightarrow> (case paste_r e of
                   Inl ex \<Rightarrow> None
                 | Inr text \<Rightarrow> if text = [] then None else Some text))"

text \<open>
  More sample answers: the click on the copy button fails without a timeout; it times out
  and the dispatched click fails too; no page can be opened.
\<close>

definition env_detached :: page_env where
  "env_detached = env_ok\<lparr>click_copy_r := Some (Error ''detached'')\<rparr>"

definition env_stuck :: page_env where
  "env_stuck = env_ok\<lparr>click_copy_r := Some (TimeoutError ''click timed out''),
                      dispatch_r := Some (Error ''no such element'')\<rparr>"

definition env_no_page :: page_env where
  "env_no_page = env_ok\<lparr>new_page_r := Some (Error ''boom'')\<rparr>"

section \<open>Properties of the file name\<close>

lemma alnum_space_nat:
  "(48 \<le> n \<and> n \<le> 57) \<or> (65 \<le> n \<and> n \<le> 90) \<or> (97 \<le> n \<and> n \<le> 122) \<or>
     n \<in> set [170, 178, 179, 181, 185, 186] \<or> (188 \<le> n \<and> n \<le> 190) \<or>
     (192 \<le> n \<and> n \<le> 214) \<or> (216 \<le> n \<and> n \<le> 246) \<or> (248 \<le> n \<and> n \<le> 255)
   \<Longrightarrow> (n::nat) \<notin> set [9, 10, 11, 12, 13, 28, 29, 30, 31, 32, 133, 160]"
  by (elim disjE) auto

lemma isalnum_not_space: "isalnum c \<Longrightarrow> \<not> isspace c"
  unfolding isalnum_def isspace_def Let_def using alnum_space_nat by blast

lemma underscore_not_space: "\<not> isspace (CHR ''_'')"
  by (simp add: isspace_def)

lemma not_alnum_sep: "\<not> isalnum (CHR ''_'')" "\<not> isalnum (CHR '' '')"
  by (simp_all add: isalnum_def)

lemma rstrip_decomp: "\<exists>ws. s = rstrip s @ ws \<and> (\<forall>c \<in> set ws. isspace c)"
proof -
  have "rev s = takeWhile isspace (rev s) @ dropWhile isspace (rev s)" by simp
  then have "rev (rev s) = rev (takeWhile isspace (rev s) @ dropWhile isspace (rev s))"
    by simp
  then have "s = rev (dropWhile isspace (rev s)) @ rev (takeWhile isspace (rev s))"
    by (simp only: rev_append rev_rev_ident)
  moreover have "\<forall>c \<in> set (rev (takeWhile isspace (rev s))). isspace c"
    by (auto dest: set_takeWhileD)
  ultimately show ?thesis unfolding rstrip_def by blast
qed

lemma rstrip_last: "rstrip s \<noteq> [] \<Longrightarrow> \<not> isspace (last (rstrip s))"
  unfolding rstrip_def by (simp add: last_rev hd_dropWhile)

lemma kept_chars: "\<forall>c \<in> set (kept t). isalnum c \<or> c = CHR '' '' \<or> c = CHR ''_''"
  by (simp add: kept_def)

lemma replace_alnum: "filter isalnum (replace_char (CHR '' '') (CHR ''_'') s) = filter isalnum s"
  by (induction s) (simp_all add: replace_char_def not_alnum_sep)

lemma kept_alnum: "filter isalnum (kept t) = filter isalnum t"
  unfolding kept_def by (induction t) simp_all

lemma safe_topic_alnum: "filter isalnum (safe_topic t) = filter isalnum t"
proof -
  obtain ws where ws: "kept t = rstrip (kept t) @ ws" "\<forall>c \<in> set ws. isspace c"
    using rstrip_decomp by blast
  have "filter isalnum ws = []"
    using ws(2) isalnum_not_space by (simp add: filter_empty_conv) blast
  then have "filter isalnum (rstrip (kept t) @ ws) = filter isalnum (rstrip (kept t))"
    by simp
  then have "filter isalnum (rstrip (kept t)) = filter isalnum (kept t)"
    using ws(1) by simp
  then show ?thesis by (simp add: safe_topic_def replace_alnum kept_alnum)
qed

lemma safe_topic_chars: "\<forall>c \<in> set (safe_topic t). isalnum c \<or> c = CHR ''_''"
proof -
  have "set (rstrip (kept t)) \<subseteq> set (kept t)"
    unfolding rstrip_def using set_dropWhileD by fastforce
  then have "\<forall>c \<in> set (rstrip (kept t)). isalnum c \<or> c = CHR '' '' \<or> c = CHR ''_''"
    using kept_chars by blast
  then show ?thesis
    by (simp add: safe_topic_def replace_char_def) blast
qed

lemma safe_topic_example: "safe_topic ''AI & ML: 2024!'' = ''AI__ML_2024''"
  by (simp add: safe_topic_def kept_def isalnum_def rstrip_def replace_char_def isspace_def)

lemma trailing_run_strip:
  assumes "b = [] \<or> last b \<noteq> c"
  shows "rev (dropWhile (\<lambda>x. x = c) (rev (b @ replicate k c))) = b"
proof -
  have "dropWhile (\<lambda>x. x = c) (replicate k c @ rev b) = dropWhile (\<lambda>x. x = c) (rev b)"
    by (rule dropWhile_append2) simp
  moreover have "dropWhile (\<lambda>x. x = c) (rev b) = rev b"
  proof (cases "b = []")
    case True
    then show ?thesis by simp
  next
    case False
    then have "hd (rev b) \<noteq> c" using assms by (simp add: hd_rev)
    moreover have "rev b \<noteq> []" using False by simp
    ultimately show ?thesis by (cases "rev b") simp_all
  qed
  ultimately show ?thesis by simp
qed

lemma trailing_run_unique:
  assumes "body @ replicate n c = body' @ replicate n' c"
    and "body = [] \<or> last body \<noteq> c" and "body' = [] \<or> last body' \<noteq> c"
  shows "body = body'"
  using trailing_run_strip [OF assms(2), of n] trailing_run_strip [OF assms(3), of n'] assms(1)
  by simp

lemma space_is_space: "isspace (CHR '' '')"
  by (simp add: isspace_def)

lemma kept_filter:
  "kept t = filter (\<lambda>c. isalnum c \<or> c = CHR '' '' \<or> c = CHR ''_'') t"
  by (simp add: kept_def)

lemma safe_topic_trimmed:
  "\<exists>body n.
     filter (\<lambda>c. isalnum c \<or> c = CHR '' '' \<or> c = CHR ''_'') t = body @ replicate n (CHR '' '')
     \<and> (body = [] \<or> \<not> isspace (last body))
     \<and> safe_topic t = map (\<lambda>c. if c = CHR '' '' then CHR ''_'' else c) body"
proof -
  obtain ws where ws: "kept t = rstrip (kept t) @ ws" "\<forall>c \<in> set ws. isspace c"
    using rstrip_decomp by blast
  have "set ws \<subseteq> set (kept t)" by (metis ws(1) set_append Un_upper2)
  then have "\<forall>c \<in> set ws. c = CHR '' ''"
    using ws(2) kept_chars isalnum_not_space underscore_not_space by blast
  then have "ws = replicate (length ws) (CHR '' '')"
    by (simp add: replicate_length_same)
  then have a: "kept t = rstrip (kept t) @ replicate (length ws) (CHR '' '')"
    using ws(1) by simp
  have b: "rstrip (kept t) = [] \<or> \<not> isspace (last (rstrip (kept t)))"
    using rstrip_last by blast
  have c: "safe_topic t = map (\<lambda>c. if c = CHR '' '' then CHR ''_'' else c) (rstrip (kept t))"
    by (simp add: safe_topic_def replace_char_def)
  show ?thesis using a b c unfolding kept_filter by blast
qed

lemma safe_topic_determined:
  assumes "filter (\<lambda>c. isalnum c \<or> c = CHR '' '' \<or> c = CHR ''_'') t
             = body @ replicate n (CHR '' '')"
    and "body = [] \<or> \<not> isspace (last body)"
  shows "safe_topic t = map (\<lambda>c. if c = CHR '' '' then CHR ''_'' else c) body"
proof -
  obtain body0 n0 where
    b0: "filter (\<lambda>c. isalnum c \<or> c = CHR '' '' \<or> c = CHR ''_'') t
           = body0 @ replicate n0 (CHR '' '')"
        "body0 = [] \<or> \<not> isspace (last body0)"
        "safe_topic t = map (\<lambda>c. if c = CHR '' '' then CHR ''_'' else c) body0"
    using safe_topic_trimmed [of t] by blast
  have "body = [] \<or> last body \<noteq> CHR '' ''" using assms(2) space_is_space by auto
  moreover have "body0 = [] \<or> last body0 \<noteq> CHR '' ''" using b0(2) space_is_space by auto
  moreover have "body @ replicate n (CHR '' '') = body0 @ replicate n0 (CHR '' '')"
    using assms(1) b0(1) by simp
  ultimately have "body = body0"
    using trailing_run_unique [of body n "CHR '' ''" body0 n0] by blast
  then show ?thesis using b0(3) by simp
qed

text \<open>
  Claim C7. For every topic, \<open>safe_topic\<close> is fixed by what the claim says. The characters
  of the topic that are alphanumeric, a space or an underscore, in their order, split in
  one way only into a body that does not end in whitespace and a run of trailing spaces;
  \<open>safe_topic\<close> is that body with each space replaced by an underscore. So exactly the
  trailing whitespace is trimmed, underscores of the topic stay, and every kept space
  becomes an underscore. It follows that the alphanumeric characters of the topic are
  all there in their order and that the result holds nothing else but underscores. The
  topic \<open>AI & ML: 2024!\<close> gives \<open>AI__ML_2024\<close>.
\<close>

theorem safe_topic_sanitizes:
  "safe_topic ''AI & ML: 2024!'' = ''AI__ML_2024''
   \<and> (\<exists>body n.
         filter (\<lambda>c. isalnum c \<or> c = CHR '' '' \<or> c = CHR ''_'') t
           = body @ replicate n (CHR '' '')
         \<and> (body = [] \<or> \<not> isspace (last body))
         \<and> safe_topic t = map (\<lambda>c. if c = CHR '' '' then CHR ''_'' else c) body)
   \<and> (\<forall>body n.
         filter (\<lambda>c. isalnum c \<or> c = CHR '' '' \<or> c = CHR ''_'') t
           = body @ replicate n (CHR '' '')
         \<and> (body = [] \<or> \<not> isspace (last body))
         \<longrightarrow> safe_topic t = map (\<lambda>c. if c = CHR '' '' then CHR ''_'' else c) body)
   \<and> filter isalnum (safe_topic t) = filter isalnum t
   \<and> (\<forall>c \<in> set (safe_topic t). isalnum c \<or> c = CHR ''_'')"
  using safe_topic_example safe_topic_trimmed [of t] safe_topic_determined [of t]
    safe_topic_alnum [of t] safe_topic_chars [of t]
  by blast

theorem safe_topic_sanitizes_witness:
  "safe_topic ''a b_ ! '' = ''a_b_''
   \<and> filter isalnum (safe_topic ''a b_ ! '') = ''ab''"
proof -
  note th = safe_topic_sanitizes [of "''a b_ ! ''"]
  have f: "filter (\<lambda>c. isalnum c \<or> c = CHR '' '' \<or> c = CHR ''_'') ''a b_ ! ''
             = ''a b_'' @ replicate 2 (CHR '' '')"
    by (simp add: isalnum_def eval_nat_numeral)
  have l: "''a b_'' = [] \<or> \<not> isspace (last ''a b_'')"
    by (simp add: isspace_def)
  from th f l
  have "safe_topic ''a b_ ! '' = map (\<lambda>c. if c = CHR '' '' then CHR ''_'' else c) ''a b_''"
    by blast
  then have s: "safe_topic ''a b_ ! '' = ''a_b_''" by simp
  have al: "filter isalnum ''a b_ ! '' = ''ab''" by (simp add: isalnum_def)
  from th have "filter isalnum (safe_topic ''a b_ ! '') = filter isalnum ''a b_ ! ''"
    by blast
  then have "filter isalnum (safe_topic ''a b_ ! '') = ''ab''"
    unfolding al .
  with s show ?thesis by (rule conjI)
qed

lemma safe_topic_all_removed:
  "\<forall>c \<in> set t. \<not> (isalnum c \<or> c \<in> set [CHR '' '', CHR ''_'']) \<Longrightarrow> safe_topic t = []"
  by (simp add: safe_topic_def kept_def rstrip_def replace_char_def filter_empty_conv)

text \<open>
  Claim C10. The check for an empty topic is made on the topic as typed. A topic that is
  not empty and holds only characters that the sanitization removes passes the check and,
  when the research directory exists or can be made, the output path is built with an
  empty topic part: \<open>article_research__<timestamp>.txt\<close> in the research directory.
\<close>

theorem main_start_unsanitizable:
  assumes "main_topic \<noteq> []"
    and "\<forall>c \<in> set main_topic. \<not> (isalnum c \<or> c \<in> set [CHR '' '', CHR ''_''])"
    and "dir_exists \<or> makedirs_r = None"
  shows "safe_topic main_topic = []
    \<and> fst (main_start sep dir_exists makedirs_r timestamp main_topic w)
        = Ready (RESEARCH_DIR @ sep @ ''article_research__'' @ timestamp @ ''.txt'')"
proof -
  have e: "safe_topic main_topic = []"
    using assms(2) by (rule safe_topic_all_removed)
  show ?thesis
    using assms(1) assms(3) e
    by (auto simp: main_start_def Let_def path_join_def output_filename_def)
qed

theorem main_start_unsanitizable_witness:
  "fst (main_start ''/'' True None ''20240101_120000'' ''!!!'' w0)
     = Ready ''article_research/article_research__20240101_120000.txt''"
proof -
  have a: "''!!!'' \<noteq> []" by simp
  have b: "\<forall>c \<in> set ''!!!''. \<not> (isalnum c \<or> c \<in> set [CHR '' '', CHR ''_''])"
    by (simp add: isalnum_def)
  have c: "True \<or> (None :: exn option) = None" by simp
  show ?thesis
    using main_start_unsanitizable [OF a b c, of "''/''" "''20240101_120000''" w0]
    by (simp add: RESEARCH_DIR_def)
qed

section \<open>Properties of the section pattern\<close>

text \<open>
  Every title that \<open>findall\<close> returns is one of the three labels, and every match is
  followed by a separator: a text without \<open>---\<close> has no section.
\<close>

lemma digit_runs_digits:
  assumes "(ds, r) \<in> set (digit_runs s)"
  shows "ds \<noteq> [] \<and> (\<forall>d \<in> set ds. isdecimal d)"
proof -
  let ?L = "length (takeWhile isdecimal s)"
  obtain n where n: "1 \<le> n" "n \<le> ?L" "ds = take n s"
    using assms by (auto simp: digit_runs_def)
  have "s = takeWhile isdecimal s @ dropWhile isdecimal s" by simp
  then have "take n s = take n (takeWhile isdecimal s)"
    using n(2) by (metis append_Nil2 diff_is_0_eq take_0 take_append)
  then have "set ds \<subseteq> set (takeWhile isdecimal s)"
    using n(3) by (simp add: set_take_subset)
  then have "\<forall>d \<in> set ds. isdecimal d"
    by (meson set_takeWhileD subsetD)
  moreover have "?L \<le> length s" by (rule length_takeWhile_le)
  then have "ds \<noteq> []" using n by auto
  ultimately show ?thesis by simp
qed

lemma labels_titles:
  assumes "(t, r) \<in> set (labels s)"
  shows "t = ''Introduction'' \<or> t = ''Conclusion''
         \<or> (\<exists>ds. t = ''Step '' @ ds \<and> ds \<noteq> [] \<and> (\<forall>d \<in> set ds. isdecimal d))"
  using assms digit_runs_digits
  by (auto simp: labels_def split: option.splits)

lemma first_label_mem: "first_label cs = Some (t, b) \<Longrightarrow> \<exists>r. (t, r) \<in> set cs"
  by (induction cs) (auto split: option.splits)

lemma match_at_title:
  assumes "match_at s = Some (g, t)"
  shows "t = ''Introduction'' \<or> t = ''Conclusion''
         \<or> (\<exists>ds. t = ''Step '' @ ds \<and> ds \<noteq> [] \<and> (\<forall>d \<in> set ds. isdecimal d))"
proof -
  obtain r b where "first_label (labels r) = Some (t, b)"
    using assms by (auto simp: match_at_def split: option.splits list.splits if_splits)
  then obtain r' where "(t, r') \<in> set (labels r)" using first_label_mem by blast
  then show ?thesis by (rule labels_titles)
qed

lemma findall_from_titles:
  "(g, t) \<in> set (findall_from k s) \<Longrightarrow>
   t = ''Introduction'' \<or> t = ''Conclusion''
   \<or> (\<exists>ds. t = ''Step '' @ ds \<and> ds \<noteq> [] \<and> (\<forall>d \<in> set ds. isdecimal d))"
proof (induction s arbitrary: k)
  case Nil
  then show ?case by simp
next
  case (Cons c cs)
  show ?case
  proof (cases "0 < k")
    case True
    then show ?thesis using Cons by simp
  next
    case False
    show ?thesis
    proof (cases "match_at (c # cs)")
      case None
      then show ?thesis using Cons False by simp
    next
      case (Some m)
      obtain g1 g2 where m: "m = (g1, g2)" by (cases m)
      then have "(g, t) = (g1, g2) \<or> (g, t) \<in> set (findall_from (length g1 - 1) cs)"
        using Cons.prems False Some by simp
      then show ?thesis
      proof
        assume "(g, t) = (g1, g2)"
        then show ?thesis using match_at_title [of "c # cs" g t] Some m by simp
      next
        assume "(g, t) \<in> set (findall_from (length g1 - 1) cs)"
        then show ?thesis by (rule Cons.IH)
      qed
    qed
  qed
qed

lemma findall_titles:
  "(g, t) \<in> set (findall s) \<Longrightarrow>
   t = ''Introduction'' \<or> t = ''Conclusion''
   \<or> (\<exists>ds. t = ''Step '' @ ds \<and> ds \<noteq> [] \<and> (\<forall>d \<in> set ds. isdecimal d))"
  unfolding findall_def by (rule findall_from_titles)

lemma strip_prefix_Some: "strip_prefix p s = Some r \<Longrightarrow> s = p @ r"
  by (induction p s rule: strip_prefix.induct) (simp_all split: if_splits)

lemma lazy_until_sep_span:
  "lazy_until_sep s = Some body \<Longrightarrow> \<exists>r. s = body @ ''---'' @ r"
proof (induction s arbitrary: body)
  case Nil
  then show ?case by simp
next
  case (Cons c cs)
  show ?case
  proof (cases "strip_prefix ''---'' (c # cs)")
    case (Some r)
    then have "c # cs = ''---'' @ r" by (rule strip_prefix_Some)
    moreover have "body = []" using Cons.prems Some by simp
    ultimately show ?thesis by simp
  next
    case None
    then obtain b where b: "lazy_until_sep cs = Some b" "body = c # b"
      using Cons.prems by auto
    then obtain r where "cs = b @ ''---'' @ r" using Cons.IH by blast
    then show ?thesis using b(2) by simp
  qed
qed

lemma after_label_span: "after_label r = Some body \<Longrightarrow> \<exists>rest. r = body @ ''---'' @ rest"
proof -
  assume a: "after_label r = Some body"
  then obtain r' where r': "strip_prefix '':'' r = Some r'"
    by (auto simp: after_label_def split: option.splits)
  then obtain c where c: "lazy_until_sep r' = Some c" "body = '':'' @ c"
    using a by (auto simp: after_label_def)
  have "r = '':'' @ r'" using r' by (rule strip_prefix_Some)
  moreover obtain rest where "r' = c @ ''---'' @ rest" using c(1) lazy_until_sep_span by blast
  ultimately show ?thesis using c(2) by simp
qed

lemma strip_prefix_Some_sym: "Some r = strip_prefix p s \<Longrightarrow> s = p @ r"
  using strip_prefix_Some [of p s r] by simp

lemma labels_split: "(t, r) \<in> set (labels s) \<Longrightarrow> s = t @ r"
  by (auto simp: labels_def digit_runs_def split: option.splits
        dest!: strip_prefix_Some strip_prefix_Some_sym)

lemma first_label_Some:
  "first_label cs = Some (t, body) \<Longrightarrow> \<exists>r. (t, r) \<in> set cs \<and> after_label r = Some body"
  by (induction cs) (auto split: option.splits)

lemma match_at_span:
  assumes "match_at s = Some (g, t)"
  shows "\<exists>rest. s = g @ ''---'' @ rest"
proof -
  obtain w r where wr: "strip_prefix ''##'' s = Some (w # r)" "isspace w"
    using assms by (auto simp: match_at_def split: option.splits list.splits if_splits)
  then obtain body where b: "first_label (labels r) = Some (t, body)" "g = ''##'' @ [w] @ t @ body"
    using assms by (auto simp: match_at_def)
  obtain r' where r': "(t, r') \<in> set (labels r)" "after_label r' = Some body"
    using b(1) first_label_Some by blast
  obtain rest where rest: "r' = body @ ''---'' @ rest" using r'(2) after_label_span by blast
  have "s = ''##'' @ w # r" using wr(1) by (rule strip_prefix_Some)
  moreover have "r = t @ r'" using r'(1) by (rule labels_split)
  ultimately have "s = g @ ''---'' @ rest" using rest b(2) by simp
  then show ?thesis by blast
qed

lemma findall_from_no_separator:
  "\<forall>r r'. s \<noteq> r @ ''---'' @ r' \<Longrightarrow> findall_from k s = []"
proof (induction s arbitrary: k)
  case Nil
  show ?case by simp
next
  case (Cons c cs)
  have "\<forall>r r'. cs \<noteq> r @ ''---'' @ r'"
  proof (intro allI notI)
    fix r r' assume "cs = r @ ''---'' @ r'"
    then have "c # cs = (c # r) @ ''---'' @ r'" by simp
    then show False using Cons.prems by blast
  qed
  then have ih: "findall_from j cs = []" for j using Cons.IH by blast
  have "match_at (c # cs) = None"
  proof (cases "match_at (c # cs)")
    case (Some m)
    obtain g t where "m = (g, t)" by (cases m)
    then obtain rest where "c # cs = g @ ''---'' @ rest"
      using Some match_at_span by blast
    then show ?thesis using Cons.prems by blast
  qed simp
  then show ?case using ih by simp
qed

text \<open>
  Claim C1. The prompt of line 43 asks for an outline with \<open>---\<close> separators between the
  sections. On such an outline, two sections with one separator between them, the pattern
  of line 89 yields the first section only: the look-ahead \<open>(?=---)\<close> has no case for
  the end of the document, so the last section is not returned.
\<close>

theorem findall_drops_last_section:
  "findall (''## Introduction: a'' @ nl @ ''---'' @ nl @ ''## Conclusion: b'')
     = [(''## Introduction: a'' @ nl, ''Introduction'')]"
  by code_simp

section \<open>The effect of the blocks\<close>

lemmas io_defs = io_return_def io_raise_def io_bind_def io_then_def try_except_def
  try_except_timeout_def try_finally_def print_def call_def call_val_def set_page_def
  open_append_def f_write_def log_def

lemma quiet_print: "quiet (print s) None"
  by (simp add: quiet_def print_def log_def outcome_def)

lemma quiet_call: "quiet (call a r) r"
  by (simp add: quiet_def call_def log_def outcome_def)

lemma quiet_nil: "quiet (io_seq []) None"
  by (simp add: quiet_def io_return_def outcome_def)

lemma quiet_cons:
  assumes "quiet m r" and "quiet (io_seq ms) r'"
  shows "quiet (io_seq (m # ms)) (first_failure (r # [r']))"
proof -
  have "fst (io_seq (m # ms) w) = outcome (first_failure (r # [r']))
        \<and> files (snd (io_seq (m # ms) w)) = files w \<and> page (snd (io_seq (m # ms) w)) = page w" for w
  proof (cases r)
    case None
    then have "fst (m w) = Inr ()" using assms(1) by (simp add: quiet_def outcome_def)
    then have "io_seq (m # ms) w = io_seq ms (snd (m w))"
      by (cases "m w") (simp add: io_then_def io_bind_def)
    then show ?thesis using assms None by (cases r') (simp_all add: quiet_def)
  next
    case (Some ex)
    then have "fst (m w) = Inl ex" using assms(1) by (simp add: quiet_def outcome_def)
    then have "io_seq (m # ms) w = (Inl ex, snd (m w))"
      by (cases "m w") (simp add: io_then_def io_bind_def)
    then show ?thesis using assms(1) Some by (simp add: quiet_def outcome_def)
  qed
  then show ?thesis unfolding quiet_def by blast
qed

lemma first_failure_cons: "first_failure (r # rs) = first_failure [r, first_failure rs]"
  by (cases r) (simp_all, cases "first_failure rs", simp_all)

lemma quiet_seq_nil: "quiet (io_seq []) (first_failure [])"
  using quiet_nil by simp

lemma quiet_seq_step:
  assumes "quiet m r" and "quiet (io_seq ms) (first_failure rs)"
  shows "quiet (io_seq (m # ms)) (first_failure (r # rs))"
  using quiet_cons [OF assms] first_failure_cons [of r rs] by simp

lemma quiet_seq_print:
  assumes "quiet (io_seq ms) (first_failure rs)"
  shows "quiet (io_seq (print s # ms)) (first_failure rs)"
  using quiet_seq_step [OF quiet_print assms] by simp

lemma quiet_enable_web_search: "quiet (enable_web_search e) (web_search_failure e)"
  unfolding quiet_def
  by (simp add: enable_web_search_def web_search_failure_def outcome_def io_defs
      split: option.splits sum.splits)

lemma quiet_enable_web_search_outline: "quiet (enable_web_search_outline e) (web_search_failure e)"
  unfolding quiet_def
  by (simp add: enable_web_search_outline_def web_search_failure_def outcome_def io_defs
      split: option.splits sum.splits)

lemma quiet_click_copy: "quiet (click_copy e) (copy_failure e)"
  unfolding quiet_def
  by (simp add: click_copy_def copy_failure_def outcome_def io_defs
      split: option.splits sum.splits exn.splits)

lemma quiet_click_copy_outline: "quiet (click_copy_outline e) (copy_failure e)"
  unfolding quiet_def
  by (simp add: click_copy_outline_def copy_failure_def outcome_def io_defs
      split: option.splits sum.splits exn.splits)

lemma quiet_await_response: "quiet (await_response e t) (response_failure e t)"
  unfolding quiet_def
  by (simp add: await_response_def response_failure_def outcome_def io_defs
      split: option.splits sum.splits exn.splits)

lemma quiet_page_session: "quiet (page_session e outline t) (page_failure e t)"
  unfolding page_session_def page_failure_def
  by (intro quiet_seq_print quiet_seq_step quiet_seq_nil quiet_call quiet_enable_web_search
        quiet_await_response quiet_click_copy)

lemma quiet_outline_session: "quiet (outline_session e topic) (outline_failure e)"
  unfolding outline_session_def outline_failure_def
  by (intro quiet_seq_print quiet_seq_step quiet_seq_nil quiet_call
        quiet_enable_web_search_outline quiet_click_copy_outline)

lemma outcome_simps [simp]:
  "outcome None = Inr ()" "outcome (Some ex) = Inl ex"
  "(outcome r = Inr u) = (r = None)" "(Inr u = outcome r) = (r = None)"
  "(outcome r = Inl ex) = (r = Some ex)" "(Inl ex = outcome r) = (r = Some ex)"
  by (cases r; auto simp: outcome_def)+

lemma open_page_effect:
  "fst (open_page e n i t w) = outcome (new_page_r e)
   \<and> files (snd (open_page e n i t w)) = files w
   \<and> page (snd (open_page e n i t w)) = (if new_page_r e = None then True else page w)"
  by (cases "new_page_r e") (simp_all add: open_page_def io_defs)

lemma save_research_effect:
  "fst (save_research e bn p t w) = outcome (first_failure [paste_failure e, open_r e])
   \<and> page (snd (save_research e bn p t w)) = page w
   \<and> (\<forall>q. q \<noteq> p \<longrightarrow> files (snd (save_research e bn p t w)) q = files w q)
   \<and> content (snd (save_research e bn p t w)) p = content w p @
        (case first_failure [paste_failure e, open_r e] of
           Some ex \<Rightarrow> []
         | None \<Rightarrow> section_header t @
             (case paste_r e of Inr text \<Rightarrow> if text = [] then copy_error_text t else text
              | Inl ex \<Rightarrow> []))"
  by (cases "paste_r e"; cases "open_r e")
     (simp_all add: save_research_def paste_failure_def io_defs content_def Let_def)

lemma research_failed_effect:
  "fst (research_failed e p t ex w) = outcome (open_err_r e)
   \<and> page (snd (research_failed e p t ex w)) = page w
   \<and> (\<forall>q. q \<noteq> p \<longrightarrow> files (snd (research_failed e p t ex w)) q = files w q)
   \<and> content (snd (research_failed e p t ex w)) p
       = content w p @ (if open_err_r e = None then error_block t ex else [])"
  by (cases "open_err_r e")
     (simp_all add: research_failed_def io_defs content_def)

lemma close_page_effect:
  "fst (close_page e t w) = outcome (if page w then close_r e else None)
   \<and> files (snd (close_page e t w)) = files w"
  by (cases "close_r e") (simp_all add: close_page_def io_defs)


lemma io_then_eval:
  "io_then m k w = (case fst (m w) of Inl ex \<Rightarrow> (Inl ex, snd (m w)) | Inr u \<Rightarrow> k (snd (m w)))"
  by (cases "m w") (simp add: io_then_def io_bind_def split: sum.splits)

lemma try_except_eval:
  "try_except m h w = (case fst (m w) of Inl ex \<Rightarrow> h ex (snd (m w)) | Inr u \<Rightarrow> (Inr u, snd (m w)))"
  by (cases "m w") (simp add: try_except_def split: sum.splits)

lemma try_finally_eval:
  "try_finally m fin w =
     (case fst (fin (snd (m w))) of
        Inl ex \<Rightarrow> (Inl ex, snd (fin (snd (m w))))
      | Inr u \<Rightarrow> (fst (m w), snd (fin (snd (m w)))))"
  by (cases "m w"; cases "fin (snd (m w))") (simp add: try_finally_def split: sum.splits)

lemma page_session_effect:
  "fst (page_session e outline t w) = outcome (page_failure e t)"
  "files (snd (page_session e outline t w)) = files w"
  "page (snd (page_session e outline t w)) = page w"
  "content (snd (page_session e outline t w)) p = content w p"
  using quiet_page_session [of e outline t] by (simp_all add: quiet_def content_def)

lemma open_page_content: "content (snd (open_page e n i t w)) p = content w p"
  using open_page_effect [of e n i t w] by (simp add: content_def)

lemma try_body_effect:
  "fst (try_body e bn outline p n i t w) = outcome (section_failure e t)
   \<and> page (snd (try_body e bn outline p n i t w)) = (if new_page_r e = None then True else page w)
   \<and> (\<forall>q. q \<noteq> p \<longrightarrow> files (snd (try_body e bn outline p n i t w)) q = files w q)
   \<and> content (snd (try_body e bn outline p n i t w)) p = content w p @
        (case section_failure e t of
           Some ex \<Rightarrow> []
         | None \<Rightarrow> record_of t (section_outcome e t))"
proof (cases "new_page_r e")
  case (Some ex)
  then show ?thesis
    using open_page_effect [of e n i t w]
    by (simp add: try_body_def io_then_eval section_failure_def open_page_content)
next
  case None
  note np = None
  show ?thesis
  proof (cases "page_failure e t")
    case (Some ex)
    then show ?thesis
      using np open_page_effect [of e n i t w]
      by (simp add: try_body_def io_then_eval section_failure_def open_page_content
            page_session_effect)
  next
    case None
    note pf = None
    let ?w2 = "snd (page_session e outline t (snd (open_page e n i t w)))"
    have sr: "try_body e bn outline p n i t w
        = (case fst (save_research e bn p t ?w2) of
             Inl ex \<Rightarrow> (Inl ex, snd (save_research e bn p t ?w2))
           | Inr u \<Rightarrow> (Inr (), snd (save_research e bn p t ?w2)))"
      using np pf open_page_effect [of e n i t w]
      by (simp add: try_body_def io_then_eval page_session_effect io_return_def)
    have ff: "section_failure e t = first_failure [paste_failure e, open_r e]"
      using np pf by (simp add: section_failure_def)
    have w2: "files ?w2 = files w" "page ?w2 = True" "content ?w2 p = content w p"
      using np open_page_effect [of e n i t w]
      by (simp_all add: page_session_effect open_page_content)
    show ?thesis
    proof (cases "first_failure [paste_failure e, open_r e]")
      case None
      then have "paste_failure e = None" by (cases "paste_failure e") simp_all
      then obtain pasted where tx: "paste_r e = Inr pasted"
        by (cases "paste_r e") (simp_all add: paste_failure_def)
      show ?thesis
        using None sr ff w2 tx np save_research_effect [of e bn p t ?w2]
        by (simp add: section_outcome_def)
    next
      case (Some ex)
      then show ?thesis
        using sr ff w2 np save_research_effect [of e bn p t ?w2]
        by simp
    qed
  qed
qed

lemma guarded_effect:
  "fst (try_except (try_body e bn outline p n i t) (research_failed e p t) w)
     = outcome (case section_failure e t of Some ex \<Rightarrow> open_err_r e | None \<Rightarrow> None)
   \<and> page (snd (try_except (try_body e bn outline p n i t) (research_failed e p t) w))
     = (if new_page_r e = None then True else page w)
   \<and> (\<forall>q. q \<noteq> p \<longrightarrow>
        files (snd (try_except (try_body e bn outline p n i t) (research_failed e p t) w)) q
          = files w q)
   \<and> content (snd (try_except (try_body e bn outline p n i t) (research_failed e p t) w)) p
     = content w p @ appended e t"
proof (cases "section_failure e t")
  case None
  then show ?thesis
    using try_body_effect [of e bn outline p n i t w]
    by (simp add: try_except_eval appended_def)
next
  case (Some ex)
  let ?w1 = "snd (try_body e bn outline p n i t w)"
  have "try_except (try_body e bn outline p n i t) (research_failed e p t) w
          = research_failed e p t ex ?w1"
    using Some try_body_effect [of e bn outline p n i t w] by (simp add: try_except_eval)
  then show ?thesis
    using Some try_body_effect [of e bn outline p n i t w]
      research_failed_effect [of e p t ex ?w1]
    by (simp add: appended_def)
qed

lemma section_effect:
  "fst (research_section e bn outline p n i t w) = outcome (section_raises e t)
   \<and> (\<forall>q. q \<noteq> p \<longrightarrow> files (snd (research_section e bn outline p n i t w)) q = files w q)
   \<and> content (snd (research_section e bn outline p n i t w)) p = content w p @ appended e t"
proof -
  let ?w0 = "w\<lparr>page := False\<rparr>"
  let ?g = "try_except (try_body e bn outline p n i t) (research_failed e p t)"
  let ?w1 = "snd (?g ?w0)"
  have s: "research_section e bn outline p n i t w = try_finally ?g (close_page e t) ?w0"
    by (simp add: research_section_def io_then_eval set_page_def)
  have g: "fst (?g ?w0) = outcome (case section_failure e t of Some ex \<Rightarrow> open_err_r e | None \<Rightarrow> None)"
    "page ?w1 = (new_page_r e = None)"
    "\<forall>q. q \<noteq> p \<longrightarrow> files ?w1 q = files w q"
    "content ?w1 p = content w p @ appended e t"
    using guarded_effect [of e bn outline p n i t ?w0] by (simp_all add: content_def)
  have c: "fst (close_page e t ?w1) = outcome (if new_page_r e = None then close_r e else None)"
    "files (snd (close_page e t ?w1)) = files ?w1"
    using close_page_effect [of e t ?w1] g(2) by simp_all
  have cc: "content (snd (close_page e t ?w1)) p = content ?w1 p"
    using c(2) by (simp add: content_def)
  show ?thesis
  proof (cases "if new_page_r e = None then close_r e else None")
    case (Some ex)
    then show ?thesis using s g c cc
      by (simp add: try_finally_eval section_raises_def)
  next
    case None
    then show ?thesis using s g c cc
      by (simp add: try_finally_eval section_raises_def)
  qed
qed

section \<open>The loop over the sections\<close>

lemma loop_effect:
  "fst (research_loop env bn outline p n xs w)
     = outcome (first_failure (map (\<lambda>(i, t). section_raises (env i) t) xs))
   \<and> (\<forall>q. q \<noteq> p \<longrightarrow> files (snd (research_loop env bn outline p n xs w)) q = files w q)
   \<and> content (snd (research_loop env bn outline p n xs w)) p
     = content w p @ concat (map (\<lambda>(i, t). appended (env i) t) (ran env xs))"
proof (induction xs arbitrary: w)
  case Nil
  show ?case by (simp add: io_return_def)
next
  case (Cons x xs)
  obtain i t where x: "x = (i, t)" by (cases x)
  let ?w1 = "snd (research_section (env i) bn outline p n i t w)"
  note se = section_effect [of "env i" bn outline p n i t w]
  show ?case
  proof (cases "section_raises (env i) t")
    case None
    then have "research_loop env bn outline p n (x # xs) w = research_loop env bn outline p n xs ?w1"
      using se x by (simp add: io_then_eval)
    then show ?thesis using Cons.IH [of ?w1] se x None by simp
  next
    case (Some ex)
    then have "research_loop env bn outline p n (x # xs) w = (Inl ex, ?w1)"
      using se x by (simp add: io_then_eval)
    then show ?thesis using se x Some by simp
  qed
qed

lemma loop_append:
  "research_loop env bn outline p n (xs @ ys) w
     = io_then (research_loop env bn outline p n xs) (research_loop env bn outline p n ys) w"
proof (induction xs arbitrary: w)
  case Nil
  show ?case by (simp add: io_then_eval io_return_def)
next
  case (Cons x xs)
  obtain i t where x: "x = (i, t)" by (cases x)
  show ?case using Cons.IH x by (simp add: io_then_eval split: sum.splits)
qed

lemma ran_all:
  "first_failure (map (\<lambda>(i, t). section_raises (env i) t) xs) = None \<Longrightarrow> ran env xs = xs"
proof (induction xs)
  case Nil
  show ?case by simp
next
  case (Cons x xs)
  obtain i t where x: "x = (i, t)" by (cases x)
  show ?case using Cons x by (cases "section_raises (env i) t") simp_all
qed

lemma all_complete:
  "first_failure (map (\<lambda>(i, t). section_raises (env i) t) xs) = None \<Longrightarrow>
   (i, t) \<in> set xs \<Longrightarrow> section_raises (env i) t = None"
proof (induction xs)
  case Nil
  then show ?case by simp
next
  case (Cons x xs)
  obtain j u where x: "x = (j, u)" by (cases x)
  show ?case using Cons x by (cases "section_raises (env j) u") auto
qed

lemma appended_complete:
  "section_raises e t = None \<Longrightarrow> appended e t = record_of t (section_outcome e t)"
  by (cases "section_failure e t")
     (auto simp: section_raises_def appended_def section_outcome_def split: option.splits if_splits)

lemma each_step_eval:
  "research_each_step env bn outline p w =
     (if findall outline = []
      then (Inr (), log (Print ''No sections found. Please check the outline format.'')
              (log (Print ''Step 2: Starting research for each section...'')
                (log (Print (banner (CHR ''=''))) w)))
      else research_loop env bn outline p (length (findall outline))
             (enumerate 0 (map snd (findall outline)))
             (log (Print (''Found a total of '' @ str_nat (length (findall outline)) @ '' sections: ''
                          @ repr_list (map snd (findall outline))))
               (log (Print ''Step 2: Starting research for each section...'')
                 (log (Print (banner (CHR ''=''))) w))))"
  by (simp add: research_each_step_def io_then_def io_bind_def print_def Let_def)

lemma content_log [simp]: "content (log a w) p = content w p"
  by (simp add: content_def log_def)

lemma files_log [simp]: "files (log a w) = files w"
  by (simp add: log_def)

lemma records_of_complete:
  assumes "first_failure (map (\<lambda>(i, t). section_raises (env i) t) xs) = None"
  shows "map (\<lambda>(i, t). appended (env i) t) xs
         = map (\<lambda>(i, t). record_of t (section_outcome (env i) t)) xs"
proof (rule map_cong [OF refl])
  fix x assume "x \<in> set xs"
  obtain i t where x: "x = (i, t)" by (cases x)
  then have "section_raises (env i) t = None"
    using all_complete [OF assms] \<open>x \<in> set xs\<close> by blast
  then show "(case x of (i, t) \<Rightarrow> appended (env i) t)
           = (case x of (i, t) \<Rightarrow> record_of t (section_outcome (env i) t))"
    using x appended_complete by simp
qed




lemma char_of_digits: "char_of (49::nat) = CHR ''1''" "char_of (53::nat) = CHR ''5''"
  by (simp_all add: char_of_def bit_simps)

lemma timeout_minutes_15: "timeout_minutes = ''15''"
  unfolding timeout_minutes_def RESPONSE_TIMEOUT_def by (simp add: char_of_digits)

lemma sample_raises: "section_raises (sample_env i) t = None"
  by (simp add: section_raises_def sample_env_def env_ok_def split: option.splits)

lemma sample_outcomes:
  "section_outcome (sample_env 0) t = Ok ''text''"
  "section_outcome (sample_env (Suc 0)) t = Failed (TimeoutError
     (''z.ai did not generate a response for '' @ quote @ t @ quote @ '' within 15 minutes.''))"
  by (simp_all add: section_outcome_def section_failure_def page_failure_def web_search_failure_def
        response_failure_def copy_failure_def paste_failure_def sample_env_def env_ok_def
        timeout_minutes_15)


text \<open>
  Claim C4. When \<open>findall\<close> recognizes no section in the outline, \<open>research_each_step\<close>
  prints its two opening lines and the report that no sections were found, and returns:
  no page is opened, no file is touched, no exception is raised.
\<close>

theorem no_sections_stops:
  assumes "findall outline = []"
  shows "research_each_step env bn outline p w
           = (Inr (), w\<lparr>trace := trace w @ [Print (banner (CHR ''='')),
                Print ''Step 2: Starting research for each section...'',
                Print ''No sections found. Please check the outline format.'']\<rparr>)"
  using assms by (simp add: each_step_eval log_def)

theorem no_sections_stops_witness:
  "research_each_step sample_env id ''An outline without headings ---'' ''out.txt'' w0
     = (Inr (), \<lparr>trace = [Print (banner (CHR ''='')),
                Print ''Step 2: Starting research for each section...'',
                Print ''No sections found. Please check the outline format.''],
             files = Map.empty, page = False\<rparr>)"
proof -
  have "findall ''An outline without headings ---'' = []" by code_simp
  from no_sections_stops [OF this, of sample_env id "''out.txt''" w0] show ?thesis
    by (simp add: w0_def)
qed

section \<open>The Web Search switch\<close>

lemma count_log [simp]:
  "count_action a (log b w) = count_action a w + (if a = b then 1 else 0)"
  by (simp add: count_action_def log_def)

lemma toggle_count:
  "count_action ClickWebSearch (snd (enable_web_search e w))
     = count_action ClickWebSearch w
       + (if click_tools_r e = None \<and> wait_web_search_r e = None
             \<and> data_state_r e = Inr (Some ''unchecked'') then 1 else 0)"
  by (cases "click_tools_r e"; cases "wait_web_search_r e"; cases "data_state_r e";
      cases "click_web_search_r e"; cases "click_body_r e")
     (simp_all add: enable_web_search_def io_then_def io_bind_def io_return_def call_def
        call_val_def)

lemma toggle_count_outline:
  "count_action ClickWebSearch (snd (enable_web_search_outline e w))
     = count_action ClickWebSearch w
       + (if click_tools_r e = None \<and> wait_web_search_r e = None
             \<and> data_state_r e = Inr (Some ''unchecked'') then 1 else 0)"
  by (cases "click_tools_r e"; cases "wait_web_search_r e"; cases "data_state_r e";
      cases "click_web_search_r e"; cases "click_body_r e")
     (simp_all add: enable_web_search_outline_def io_then_def io_bind_def io_return_def call_def
        call_val_def print_def)

text \<open>
  Claim C6. The step that makes sure Web Search is on, in \<open>generate_outline\<close> and in
  \<open>research_each_step\<close>: when the state of the switch reads \<open>checked\<close>, the switch is
  not clicked; when it reads \<open>unchecked\<close> (and the step got as far as reading it), the
  switch is clicked exactly once.
\<close>

theorem enable_web_search_idempotent:
  "(data_state_r e = Inr (Some ''checked'') \<longrightarrow>
      count_action ClickWebSearch (snd (enable_web_search e w)) = count_action ClickWebSearch w
    \<and> count_action ClickWebSearch (snd (enable_web_search_outline e w))
        = count_action ClickWebSearch w)
   \<and> (data_state_r e = Inr (Some ''unchecked'') \<and> click_tools_r e = None
        \<and> wait_web_search_r e = None \<longrightarrow>
      count_action ClickWebSearch (snd (enable_web_search e w))
        = count_action ClickWebSearch w + 1
    \<and> count_action ClickWebSearch (snd (enable_web_search_outline e w))
        = count_action ClickWebSearch w + 1)"
  by (simp add: toggle_count toggle_count_outline)

theorem enable_web_search_idempotent_witness:
  "count_action ClickWebSearch (snd (enable_web_search env_ok w0)) = 0
   \<and> count_action ClickWebSearch (snd (enable_web_search_outline env_ok w0)) = 0
   \<and> count_action ClickWebSearch (snd (enable_web_search env_off w0)) = 1
   \<and> count_action ClickWebSearch (snd (enable_web_search_outline env_off w0)) = 1"
  using enable_web_search_idempotent [of env_ok w0] enable_web_search_idempotent [of env_off w0]
  by (simp add: env_ok_def env_off_def w0_def count_action_def)

lemma proceeds_to_body:
  "data_state_r e = Inr v \<Longrightarrow> v \<noteq> Some ''unchecked'' \<Longrightarrow> click_tools_r e = None \<Longrightarrow>
   wait_web_search_r e = None \<Longrightarrow>
   enable_web_search e w
     = (outcome (click_body_r e),
        w\<lparr>trace := trace w @ [ClickTools, WaitWebSearch, GetDataState, ClickBody]\<rparr>)"
  by (cases "click_body_r e")
     (simp_all add: enable_web_search_def io_then_def io_bind_def io_return_def call_def
        call_val_def log_def)

lemma proceeds_to_body_outline:
  "data_state_r e = Inr v \<Longrightarrow> v \<noteq> Some ''unchecked'' \<Longrightarrow> click_tools_r e = None \<Longrightarrow>
   wait_web_search_r e = None \<Longrightarrow>
   fst (enable_web_search_outline e w) = outcome (click_body_r e)
   \<and> count_action ClickBody (snd (enable_web_search_outline e w)) = count_action ClickBody w + 1"
  by (cases "click_body_r e")
     (simp_all add: enable_web_search_outline_def io_then_def io_bind_def io_return_def call_def
        call_val_def print_def)

text \<open>
  Claim C9. The switch is clicked only when the attribute reads exactly \<open>unchecked\<close>.
  For any other answer, an absent attribute and any third state included, it is not
  clicked, and the step goes on to the click on the page body as if Web Search were on.
\<close>

theorem toggle_only_when_unchecked:
  "(data_state_r e \<noteq> Inr (Some ''unchecked'') \<longrightarrow>
      count_action ClickWebSearch (snd (enable_web_search e w)) = count_action ClickWebSearch w
    \<and> count_action ClickWebSearch (snd (enable_web_search_outline e w))
        = count_action ClickWebSearch w)
   \<and> (data_state_r e = Inr v \<and> v \<noteq> Some ''unchecked'' \<and> click_tools_r e = None
        \<and> wait_web_search_r e = None \<longrightarrow>
      enable_web_search e w
        = (outcome (click_body_r e),
           w\<lparr>trace := trace w @ [ClickTools, WaitWebSearch, GetDataState, ClickBody]\<rparr>)
    \<and> fst (enable_web_search_outline e w) = outcome (click_body_r e)
    \<and> count_action ClickBody (snd (enable_web_search_outline e w))
        = count_action ClickBody w + 1)"
  using proceeds_to_body [of e v w] proceeds_to_body_outline [of e v w]
  by (simp add: toggle_count toggle_count_outline)

theorem toggle_only_when_unchecked_witness:
  "enable_web_search env_absent w0
     = (Inr (), \<lparr>trace = [ClickTools, WaitWebSearch, GetDataState, ClickBody],
               files = Map.empty, page = False\<rparr>)
   \<and> count_action ClickWebSearch (snd (enable_web_search_outline env_absent w0)) = 0
   \<and> count_action ClickBody (snd (enable_web_search_outline env_absent w0)) = 1"
  using toggle_only_when_unchecked [of env_absent w0 None]
  by (simp add: env_ok_def env_absent_def w0_def count_action_def)

section \<open>The copy button\<close>

lemma print_eval [simp]: "fst (print s w) = Inr ()" "snd (print s w) = log (Print s) w"
  by (simp_all add: print_def)

lemma read_outline_result:
  "fst (read_outline e w)
     = (case paste_r e of Inl ex \<Rightarrow> Inl ex
        | Inr text \<Rightarrow> Inr (if text = [] then None else Some text))"
  by (cases "paste_r e")
     (simp_all add: read_outline_def io_bind_def io_then_def io_return_def call_val_def print_def)

lemma outline_failed_result: "fst (outline_failed ex w) = Inr None"
  by (simp add: outline_failed_def io_then_eval io_return_def)

lemma generate_outline_result: "fst (generate_outline e topic w) = Inr (outline_result e)"
proof -
  let ?w2 = "log (Print ''Step 1: Generating the content outline...'') (log (Print (banner (CHR ''=''))) w)"
  have g: "generate_outline e topic w
      = try_except (io_then (outline_session e topic) (read_outline e)) outline_failed ?w2"
    by (simp add: generate_outline_def io_then_eval)
  have s: "fst (outline_session e topic ?w2) = outcome (outline_failure e)"
    using quiet_outline_session [of e topic] by (simp add: quiet_def)
  show ?thesis
  proof (cases "outline_failure e")
    case (Some ex)
    then show ?thesis using g s
      by (simp add: try_except_eval io_then_eval outline_failed_result outline_result_def)
  next
    case None
    then show ?thesis using g s
      by (cases "paste_r e")
         (simp_all add: try_except_eval io_then_eval outline_failed_result outline_result_def
            read_outline_result)
  qed
qed

lemma reaches_copy_failures:
  assumes "reaches_copy e"
  shows "outline_failure e = copy_failure e" "page_failure e t = copy_failure e"
proof -
  have w: "web_search_failure e = None"
    using assms by (cases "data_state_r e") (auto simp: reaches_copy_def web_search_failure_def)
  show "outline_failure e = copy_failure e"
    using assms w by (cases "copy_failure e") (simp_all add: reaches_copy_def outline_failure_def)
  show "page_failure e t = copy_failure e"
    using assms w
    by (cases "copy_failure e")
       (simp_all add: reaches_copy_def page_failure_def response_failure_def)
qed

lemma click_copy_timeout:
  assumes "click_copy_r e = Some (TimeoutError m)"
  shows "click_copy e w
           = (outcome (dispatch_r e),
              w\<lparr>trace := trace w @ [Print ''Attempting to click the copy button for the research...'',
                   ClickCopy, Print ''Standard click failed. Attempting JavaScript click...'',
                   DispatchClick]\<rparr>)"
    and "click_copy_outline e w
           = (outcome (dispatch_r e),
              w\<lparr>trace := trace w @ [Print ''Attempting to click the copy button for the outline...'',
                   ClickCopy, Print ''Standard click failed. Attempting JavaScript click...'',
                   DispatchClick]\<rparr>)"
  using assms
  by (cases "dispatch_r e";
      simp add: click_copy_def click_copy_outline_def try_except_timeout_def io_then_def
        io_bind_def io_return_def call_def print_def log_def)+

lemma click_copy_error:
  assumes "click_copy_r e = Some (Error m)"
  shows "click_copy e w
           = (Inl (Error m),
              w\<lparr>trace := trace w @ [Print ''Attempting to click the copy button for the research...'',
                   ClickCopy]\<rparr>)"
    and "click_copy_outline e w
           = (Inl (Error m),
              w\<lparr>trace := trace w @ [Print ''Attempting to click the copy button for the outline...'',
                   ClickCopy]\<rparr>)"
  using assms
  by (simp_all add: click_copy_def click_copy_outline_def try_except_timeout_def io_then_def
        io_bind_def io_return_def call_def print_def log_def)

lemma section_raises_clean:
  "close_r e = None \<Longrightarrow> open_err_r e = None \<Longrightarrow> section_raises e t = None"
  by (simp add: section_raises_def split: option.splits)

text \<open>
  Claim C3, amended. When the click on the copy button times out, the click event is
  dispatched, exactly once, before the block yields anything, and the block yields what
  the dispatch yields. When the click fails with any other exception, nothing is
  dispatched and that exception leaves the block. \<open>generate_outline\<close> never raises: it
  returns \<open>outline_result\<close>, which is \<open>None\<close> when click and dispatch both fail. The
  body of the loop of \<open>research_each_step\<close> raises only what \<open>page.close()\<close> or the
  \<open>open\<close> of its handler raise, so nothing when both succeed; when click and dispatch
  both fail, the section's record is the error block with the exception of the dispatch.
\<close>

theorem two_tier_copy:
  "(click_copy_r e = Some (TimeoutError m) \<longrightarrow>
      click_copy_outline e w
        = (outcome (dispatch_r e),
           w\<lparr>trace := trace w @ [Print ''Attempting to click the copy button for the outline...'',
                ClickCopy, Print ''Standard click failed. Attempting JavaScript click...'',
                DispatchClick]\<rparr>)
    \<and> click_copy e w
        = (outcome (dispatch_r e),
           w\<lparr>trace := trace w @ [Print ''Attempting to click the copy button for the research...'',
                ClickCopy, Print ''Standard click failed. Attempting JavaScript click...'',
                DispatchClick]\<rparr>))
   \<and> (click_copy_r e = Some (Error m) \<longrightarrow>
      click_copy_outline e w
        = (Inl (Error m),
           w\<lparr>trace := trace w @ [Print ''Attempting to click the copy button for the outline...'',
                ClickCopy]\<rparr>)
    \<and> click_copy e w
        = (Inl (Error m),
           w\<lparr>trace := trace w @ [Print ''Attempting to click the copy button for the research...'',
                ClickCopy]\<rparr>))
   \<and> fst (generate_outline e topic w) = Inr (outline_result e)
   \<and> fst (research_section e bn outline p n i t w) = outcome (section_raises e t)
   \<and> (close_r e = None \<and> open_err_r e = None \<longrightarrow> section_raises e t = None)
   \<and> (reaches_copy e \<and> click_copy_r e = Some (TimeoutError m) \<and> dispatch_r e = Some ex \<longrightarrow>
      outline_result e = None
    \<and> (new_page_r e = None \<longrightarrow>
         content (snd (research_section e bn outline p n i t w)) p
           = content w p @ (if open_err_r e = None then error_block t ex else [])))"
proof -
  have a: "reaches_copy e \<and> click_copy_r e = Some (TimeoutError m) \<and> dispatch_r e = Some ex \<longrightarrow>
      outline_result e = None
    \<and> (new_page_r e = None \<longrightarrow>
         content (snd (research_section e bn outline p n i t w)) p
           = content w p @ (if open_err_r e = None then error_block t ex else []))"
  proof (intro impI)
    assume h: "reaches_copy e \<and> click_copy_r e = Some (TimeoutError m) \<and> dispatch_r e = Some ex"
    then have cf: "copy_failure e = Some ex" by (simp add: copy_failure_def)
    have o: "outline_failure e = Some ex" "page_failure e t = Some ex"
      using h cf by (simp_all add: reaches_copy_failures)
    have "new_page_r e = None \<Longrightarrow> appended e t = (if open_err_r e = None then error_block t ex else [])"
      using o by (simp add: appended_def section_failure_def)
    then show "outline_result e = None
      \<and> (new_page_r e = None \<longrightarrow>
         content (snd (research_section e bn outline p n i t w)) p
           = content w p @ (if open_err_r e = None then error_block t ex else []))"
      using o section_effect [of e bn outline p n i t w] by (simp add: outline_result_def)
  qed
  have b: "click_copy_r e = Some (TimeoutError m) \<longrightarrow>
      click_copy_outline e w
        = (outcome (dispatch_r e),
           w\<lparr>trace := trace w @ [Print ''Attempting to click the copy button for the outline...'',
                ClickCopy, Print ''Standard click failed. Attempting JavaScript click...'',
                DispatchClick]\<rparr>)
    \<and> click_copy e w
        = (outcome (dispatch_r e),
           w\<lparr>trace := trace w @ [Print ''Attempting to click the copy button for the research...'',
                ClickCopy, Print ''Standard click failed. Attempting JavaScript click...'',
                DispatchClick]\<rparr>)"
    using click_copy_timeout by blast
  have c: "click_copy_r e = Some (Error m) \<longrightarrow>
      click_copy_outline e w
        = (Inl (Error m),
           w\<lparr>trace := trace w @ [Print ''Attempting to click the copy button for the outline...'',
                ClickCopy]\<rparr>)
    \<and> click_copy e w
        = (Inl (Error m),
           w\<lparr>trace := trace w @ [Print ''Attempting to click the copy button for the research...'',
                ClickCopy]\<rparr>)"
    using click_copy_error by blast
  have d: "close_r e = None \<and> open_err_r e = None \<longrightarrow> section_raises e t = None"
    using section_raises_clean by blast
  have f: "fst (research_section e bn outline p n i t w) = outcome (section_raises e t)"
    using section_effect [of e bn outline p n i t w] by blast
  show ?thesis
    using a b c d f generate_outline_result [of e topic w] by blast
qed

theorem two_tier_copy_witness:
  "click_copy_outline env_stuck w0
     = (Inl (Error ''no such element''),
        \<lparr>trace = [Print ''Attempting to click the copy button for the outline...'', ClickCopy,
                  Print ''Standard click failed. Attempting JavaScript click...'', DispatchClick],
         files = Map.empty, page = False\<rparr>)
   \<and> fst (generate_outline env_stuck ''bread'' w0) = Inr None
   \<and> fst (research_section env_stuck id sample_outline ''out.txt'' 1 0 ''Introduction'' w0) = Inr ()
   \<and> content (snd (research_section env_stuck id sample_outline ''out.txt'' 1 0 ''Introduction'' w0))
        ''out.txt''
      = error_block ''Introduction'' (Error ''no such element'')"
proof -
  have r: "reaches_copy env_stuck"
    by (simp add: reaches_copy_def env_stuck_def env_ok_def)
  have c: "click_copy_r env_stuck = Some (TimeoutError ''click timed out'')"
    "dispatch_r env_stuck = Some (Error ''no such element'')"
    "close_r env_stuck = None" "open_err_r env_stuck = None" "new_page_r env_stuck = None"
    by (simp_all add: env_stuck_def env_ok_def)
  show ?thesis
    using r c two_tier_copy [where e = env_stuck and m = "''click timed out''" and w = w0
        and topic = "''bread''" and bn = id and outline = sample_outline and p = "''out.txt''"
        and n = 1 and i = 0 and t = "''Introduction''" and ex = "Error ''no such element''"]
    by (simp add: w0_def content_def)
qed

text \<open>
  Claim C3 as stated fails: a click on the copy button that raises an exception other than
  a timeout is followed by no dispatch at all; \<open>generate_outline\<close> returns \<open>None\<close>.
\<close>

theorem no_fallback_after_error:
  "click_copy_r env_detached = Some (Error ''detached'')
   \<and> count_action ClickCopy (snd (generate_outline env_detached ''bread'' w0)) = 1
   \<and> count_action DispatchClick (snd (generate_outline env_detached ''bread'' w0)) = 0
   \<and> fst (generate_outline env_detached ''bread'' w0) = Inr None"
  by (simp add: generate_outline_def outline_session_def enable_web_search_outline_def
        click_copy_outline_def read_outline_def outline_failed_def
        io_return_def io_bind_def io_then_def try_except_def try_except_timeout_def
        print_def call_def call_val_def log_def
        env_detached_def env_ok_def w0_def count_action_def)

section \<open>The format of a record\<close>

lemma paste_of_success:
  assumes "section_failure e t = None"
  shows "\<exists>pasted. paste_r e = Inr pasted"
proof -
  have "paste_failure e = None"
    using assms
    by (cases "new_page_r e"; cases "page_failure e t"; cases "paste_failure e")
       (simp_all add: section_failure_def)
  then show ?thesis by (cases "paste_r e") (simp_all add: paste_failure_def)
qed

lemma appended_success:
  assumes "section_failure e t = None" and "paste_r e = Inr pasted"
  shows "appended e t = nl @ nl @ replicate 20 (CHR ''='') @ '' '' @ upper t @ '' ''
             @ replicate 20 (CHR ''='') @ nl @ nl
             @ (if pasted = [] then ''--- ERROR: FAILED TO COPY CONTENT FOR '' @ t @ '' ---'' @ nl
                else pasted)"
  using assms
  by (simp add: appended_def section_outcome_def section_header_def copy_error_text_def)

lemma appended_failure:
  assumes "section_failure e t = Some ex"
  shows "appended e t = (if open_err_r e = None
           then nl @ nl @ ''--- ERROR DURING RESEARCH FOR: '' @ t @ '' ---'' @ nl
                @ ''Details: '' @ str_exn ex @ nl @ nl
           else [])"
  using assms by (simp add: appended_def error_block_def)

text \<open>
  Claim C5, amended. What the body of the loop appends for a section is \<open>appended\<close>.
  When no exception reaches the handler, it is two newlines, the line of twenty \<open>=\<close>, a
  space, the title in upper case, a space and twenty \<open>=\<close>, two newlines, and then the
  pasted text, or the copy error for an empty paste. When an exception reaches the
  handler, it is two newlines and the error block with the title as it is and the
  exception, with no line of \<open>=\<close>; or nothing, when the handler cannot open the file.
\<close>

theorem record_format:
  "content (snd (research_section e bn outline p n i t w)) p = content w p @ appended e t
   \<and> (section_failure e t = None \<longrightarrow>
      (\<exists>pasted. paste_r e = Inr pasted
         \<and> appended e t = nl @ nl @ replicate 20 (CHR ''='') @ '' '' @ upper t @ '' ''
             @ replicate 20 (CHR ''='') @ nl @ nl
             @ (if pasted = [] then ''--- ERROR: FAILED TO COPY CONTENT FOR '' @ t @ '' ---'' @ nl
                else pasted)))
   \<and> (section_failure e t = Some ex \<and> open_err_r e = None \<longrightarrow>
        appended e t = nl @ nl @ ''--- ERROR DURING RESEARCH FOR: '' @ t @ '' ---'' @ nl
                       @ ''Details: '' @ str_exn ex @ nl @ nl)
   \<and> (section_failure e t = Some ex \<and> open_err_r e \<noteq> None \<longrightarrow> appended e t = [])"
proof -
  have a: "content (snd (research_section e bn outline p n i t w)) p = content w p @ appended e t"
    using section_effect [of e bn outline p n i t w] by (rule conjunct2 [THEN conjunct2])
  have b: "section_failure e t = None \<longrightarrow>
      (\<exists>pasted. paste_r e = Inr pasted
         \<and> appended e t = nl @ nl @ replicate 20 (CHR ''='') @ '' '' @ upper t @ '' ''
             @ replicate 20 (CHR ''='') @ nl @ nl
             @ (if pasted = [] then ''--- ERROR: FAILED TO COPY CONTENT FOR '' @ t @ '' ---'' @ nl
                else pasted))"
    using paste_of_success [of e t] appended_success [of e t] by blast
  have c: "section_failure e t = Some ex \<and> open_err_r e = None \<longrightarrow>
        appended e t = nl @ nl @ ''--- ERROR DURING RESEARCH FOR: '' @ t @ '' ---'' @ nl
                       @ ''Details: '' @ str_exn ex @ nl @ nl"
    using appended_failure [of e t ex] by simp
  have d: "section_failure e t = Some ex \<and> open_err_r e \<noteq> None \<longrightarrow> appended e t = []"
    using appended_failure [of e t ex] by simp
  show ?thesis using a b c d by (intro conjI)
qed

lemma upper_introduction: "upper ''Introduction'' = ''INTRODUCTION''"
  by (simp add: upper_def upper_char_def char_of_def bit_simps)

lemma sample_failures:
  "section_failure env_ok t = None"
  "section_failure env_no_page t = Some (Error ''boom'')"
  by (simp_all add: section_failure_def page_failure_def web_search_failure_def
        response_failure_def copy_failure_def paste_failure_def env_no_page_def env_ok_def)

theorem record_format_witness:
  "content (snd (research_section env_ok id sample_outline ''out.txt'' 1 0 ''Introduction'' w0))
        ''out.txt''
     = nl @ nl @ ''==================== INTRODUCTION ===================='' @ nl @ nl @ ''text''
   \<and> appended env_no_page ''Introduction''
     = nl @ nl @ ''--- ERROR DURING RESEARCH FOR: Introduction ---'' @ nl @ ''Details: boom''
       @ nl @ nl"
proof -
  have p: "paste_r env_ok = Inr ''text''" "open_err_r env_no_page = None"
    by (simp_all add: env_ok_def env_no_page_def)
  have r: "replicate 20 (CHR ''='') = ''===================='' " by (simp add: eval_nat_numeral)
  have c0: "content w0 ''out.txt'' = []" by (simp add: content_def w0_def)
  have s1: "section_failure env_ok ''Introduction'' = None"
    and s2: "section_failure env_no_page ''Introduction'' = Some (Error ''boom'')"
    by (rule sample_failures)+
  from record_format [of env_ok id sample_outline "''out.txt''" 1 0 "''Introduction''" w0]
  have "content (snd (research_section env_ok id sample_outline ''out.txt'' 1 0 ''Introduction'' w0))
        ''out.txt''
     = nl @ nl @ ''==================== INTRODUCTION ===================='' @ nl @ nl @ ''text''"
    using s1 p(1) r c0 by (simp add: upper_introduction)
  moreover
  from record_format [of env_no_page id sample_outline "''out.txt''" 1 0 "''Introduction''" w0
        "Error ''boom''"]
  have "appended env_no_page ''Introduction''
     = nl @ nl @ ''--- ERROR DURING RESEARCH FOR: Introduction ---'' @ nl @ ''Details: boom''
       @ nl @ nl"
    using s2 p(2) by simp
  ultimately show ?thesis by (rule conjI)
qed

text \<open>
  Claim C5 as stated fails: the record of a section whose page cannot be opened is the
  error block alone and does not start with the blank lines and the line of \<open>=\<close>.
\<close>

theorem error_record_without_delimiter:
  "content (snd (research_section env_no_page id sample_outline ''out.txt'' 1 0 ''Introduction'' w0))
        ''out.txt''
     = nl @ nl @ ''--- ERROR DURING RESEARCH FOR: Introduction ---'' @ nl @ ''Details: boom''
       @ nl @ nl
   \<and> \<not> prefix (nl @ nl @ replicate 20 (CHR ''=''))
        (content (snd (research_section env_no_page id sample_outline ''out.txt'' 1 0
                         ''Introduction'' w0)) ''out.txt'')"
proof -
  have oe: "open_err_r env_no_page = None" by (simp add: env_no_page_def env_ok_def)
  have a: "appended env_no_page ''Introduction''
      = nl @ nl @ ''--- ERROR DURING RESEARCH FOR: Introduction ---'' @ nl @ ''Details: boom''
        @ nl @ nl"
    using oe by (simp add: appended_def sample_failures error_block_def)
  have c: "content (snd (research_section env_no_page id sample_outline ''out.txt'' 1 0
                           ''Introduction'' w0)) ''out.txt''
      = nl @ nl @ ''--- ERROR DURING RESEARCH FOR: Introduction ---'' @ nl @ ''Details: boom''
        @ nl @ nl"
    using section_effect [of env_no_page id sample_outline "''out.txt''" 1 0 "''Introduction''" w0] a
    by (simp add: content_def w0_def)
  show ?thesis unfolding c by (simp add: nl_def eval_nat_numeral)
qed

section \<open>The file only grows\<close>

lemma loop_prefix:
  "prefix (content w p) (content (snd (research_loop env bn outline p n xs w)) p)"
  using loop_effect [of env bn outline p n xs w] by simp

lemma each_step_prefix:
  "prefix (content w p) (content (snd (research_each_step env bn outline p w)) p)"
proof (cases "findall outline = []")
  case True
  then show ?thesis by (simp add: each_step_eval)
next
  case False
  let ?w1 = "log (Print (''Found a total of '' @ str_nat (length (findall outline)) @ '' sections: ''
                          @ repr_list (map snd (findall outline))))
               (log (Print ''Step 2: Starting research for each section...'')
                 (log (Print (banner (CHR ''=''))) w))"
  have "content ?w1 p = content w p" by simp
  then show ?thesis
    using False loop_prefix [of ?w1 p env bn outline "length (findall outline)"
        "enumerate 0 (map snd (findall outline))"]
    by (simp add: each_step_eval)
qed

lemma loop_completed:
  assumes "research_loop env bn outline p n xs w = (Inr (), w1)"
  shows "content w1 p
           = content w p @ concat (map (\<lambda>(i, t). record_of t (section_outcome (env i) t)) xs)"
proof -
  note le = loop_effect [of env bn outline p n xs w]
  have ff: "first_failure (map (\<lambda>(i, t). section_raises (env i) t) xs) = None"
    using assms le by simp
  show ?thesis
    using assms le ran_all [OF ff] records_of_complete [OF ff] by simp
qed

lemma loop_resumes:
  assumes "research_loop env bn outline p n xs w = (Inr (), w1)"
  shows "research_loop env bn outline p n (xs @ ys) w = research_loop env bn outline p n ys w1"
  using assms by (simp add: loop_append io_then_eval)

text \<open>
  Claim C8. The output file only grows: what it held before a run is a prefix of what it
  holds after, however the run ends. Once the loop has gone through the sections \<open>xs\<close>,
  the file holds their records, the rest of the loop starts from that state, and whatever
  happens in it, an exception included, what the file held is still a prefix of its
  content.
\<close>

theorem append_only_incremental:
  "prefix (content w p) (content (snd (research_each_step env bn outline p w)) p)
   \<and> (research_loop env bn outline p n xs w = (Inr (), w1) \<longrightarrow>
        content w1 p
          = content w p @ concat (map (\<lambda>(i, t). record_of t (section_outcome (env i) t)) xs)
      \<and> research_loop env bn outline p n (xs @ ys) w = research_loop env bn outline p n ys w1
      \<and> prefix (content w1 p) (content (snd (research_loop env bn outline p n (xs @ ys) w)) p))"
proof -
  have "research_loop env bn outline p n xs w = (Inr (), w1) \<Longrightarrow>
        prefix (content w1 p) (content (snd (research_loop env bn outline p n (xs @ ys) w)) p)"
    using loop_resumes [of env bn outline p n xs w w1 ys]
      loop_prefix [of w1 p env bn outline n ys] by simp
  then show ?thesis
    using each_step_prefix [of w p env bn outline] loop_completed [of env bn outline p n xs w w1]
      loop_resumes [of env bn outline p n xs w w1 ys]
    by blast
qed

theorem append_only_incremental_witness:
  "content (snd (research_loop sample_env id sample_outline ''out.txt'' 2
                   [(0, ''Introduction'')] w0)) ''out.txt''
     = section_header ''Introduction'' @ ''text''
   \<and> prefix (section_header ''Introduction'' @ ''text'')
        (content (snd (research_loop sample_env id sample_outline ''out.txt'' 2
                         ([(0, ''Introduction'')] @ [(1, ''Step 1'')]) w0)) ''out.txt'')"
proof -
  let ?w1 = "snd (research_loop sample_env id sample_outline ''out.txt'' 2 [(0, ''Introduction'')] w0)"
  have "fst (research_loop sample_env id sample_outline ''out.txt'' 2 [(0, ''Introduction'')] w0)
          = Inr ()"
    using loop_effect [of sample_env id sample_outline "''out.txt''" 2 "[(0, ''Introduction'')]" w0]
    by (simp add: sample_raises)
  then have h: "research_loop sample_env id sample_outline ''out.txt'' 2 [(0, ''Introduction'')] w0
          = (Inr (), ?w1)"
    by (simp add: prod_eq_iff)
  have c0: "content w0 ''out.txt'' = []" by (simp add: content_def w0_def)
  note t = append_only_incremental [of w0 "''out.txt''" sample_env id sample_outline 2
        "[(0, ''Introduction'')]" ?w1 "[(1, ''Step 1'')]"]
  from t h have a: "content ?w1 ''out.txt''
      = content w0 ''out.txt''
        @ concat (map (\<lambda>(i, t). record_of t (section_outcome (sample_env i) t))
                    [(0, ''Introduction'')])"
    by blast
  from t h have b: "prefix (content ?w1 ''out.txt'')
      (content (snd (research_loop sample_env id sample_outline ''out.txt'' 2
                       ([(0, ''Introduction'')] @ [(1, ''Step 1'')]) w0)) ''out.txt'')"
    by blast
  have a': "content ?w1 ''out.txt'' = section_header ''Introduction'' @ ''text''"
    unfolding a c0 by (simp add: sample_outcomes)
  show ?thesis using a' b [unfolded a'] by (rule conjI)
qed

end
